theory Spec2Isabelle
  imports Complex_Main
begin

section \<open>Scalars read from data frames\<close>

text \<open>
  Every number that \<open>filter_stocks\<close> computes with is read out of a pandas frame
  (\<open>daily_df.iloc[-1]['close']\<close>, \<open>intraday_df['price'].iloc[0]\<close>, ...), so it is a
  numpy floating-point scalar and not a plain Python float.  Dividing such a scalar by
  zero does not raise \<open>ZeroDivisionError\<close>: numpy follows IEEE 754, issues a
  \<open>RuntimeWarning\<close> and yields \<open>inf\<close>, \<open>-inf\<close> or \<open>nan\<close>; a comparison with \<open>nan\<close>
  is false.  The model keeps exactly that: a scalar is a real number or one of the three
  special values.  Rounding, overflow and the sign of zero are not modelled (finite
  arithmetic is exact, and a zero divisor is taken as positive zero).
\<close>

datatype npfloat = Fin real | PInf | NInf | NaN

instantiation npfloat :: "{plus, minus, times, inverse, ord}"
begin

fun plus_npfloat :: "npfloat \<Rightarrow> npfloat \<Rightarrow> npfloat" where
  "Fin a + Fin b = Fin (a + b)"
| "Fin a + PInf = PInf"
| "Fin a + NInf = NInf"
| "PInf + Fin b = PInf"
| "PInf + PInf = PInf"
| "PInf + NInf = NaN"
| "NInf + Fin b = NInf"
| "NInf + PInf = NaN"
| "NInf + NInf = NInf"
| "NaN + y = NaN"
| "x + NaN = NaN"

fun minus_npfloat :: "npfloat \<Rightarrow> npfloat \<Rightarrow> npfloat" where
  "Fin a - Fin b = Fin (a - b)"
| "Fin a - PInf = NInf"
| "Fin a - NInf = PInf"
| "PInf - Fin b = PInf"
| "PInf - PInf = NaN"
| "PInf - NInf = PInf"
| "NInf - Fin b = NInf"
| "NInf - PInf = NInf"
| "NInf - NInf = NaN"
| "NaN - y = NaN"
| "x - NaN = NaN"

fun times_npfloat :: "npfloat \<Rightarrow> npfloat \<Rightarrow> npfloat" where
  "Fin a * Fin b = Fin (a * b)"
| "Fin a * PInf = (if 0 < a then PInf else if a < 0 then NInf else NaN)"
| "Fin a * NInf = (if 0 < a then NInf else if a < 0 then PInf else NaN)"
| "PInf * Fin b = (if 0 < b then PInf else if b < 0 then NInf else NaN)"
| "NInf * Fin b = (if 0 < b then NInf else if b < 0 then PInf else NaN)"
| "PInf * PInf = PInf"
| "PInf * NInf = NInf"
| "NInf * PInf = NInf"
| "NInf * NInf = PInf"
| "NaN * y = NaN"
| "x * NaN = NaN"

fun divide_npfloat :: "npfloat \<Rightarrow> npfloat \<Rightarrow> npfloat" where
  "divide_npfloat (Fin a) (Fin b) =
     (if b \<noteq> 0 then Fin (a / b)
      else if 0 < a then PInf else if a < 0 then NInf else NaN)"
| "divide_npfloat (Fin a) PInf = Fin 0"
| "divide_npfloat (Fin a) NInf = Fin 0"
| "divide_npfloat PInf (Fin b) = (if 0 \<le> b then PInf else NInf)"
| "divide_npfloat NInf (Fin b) = (if 0 \<le> b then NInf else PInf)"
| "divide_npfloat PInf PInf = NaN"
| "divide_npfloat PInf NInf = NaN"
| "divide_npfloat NInf PInf = NaN"
| "divide_npfloat NInf NInf = NaN"
| "divide_npfloat NaN y = NaN"
| "divide_npfloat x NaN = NaN"

definition inverse_npfloat :: "npfloat \<Rightarrow> npfloat" where
  "inverse_npfloat x = divide (Fin 1) x"

fun less_npfloat :: "npfloat \<Rightarrow> npfloat \<Rightarrow> bool" where
  "Fin a < Fin b = (a < b)"
| "Fin a < PInf = True"
| "NInf < Fin b = True"
| "NInf < PInf = True"
| "(x :: npfloat) < y = False"

fun less_eq_npfloat :: "npfloat \<Rightarrow> npfloat \<Rightarrow> bool" where
  "Fin a \<le> Fin b = (a \<le> b)"
| "Fin a \<le> PInf = True"
| "NInf \<le> Fin b = True"
| "NInf \<le> PInf = True"
| "PInf \<le> PInf = True"
| "NInf \<le> NInf = True"
| "(x :: npfloat) \<le> y = False"

instance ..

end

text \<open>\<open>Series.mean()\<close> and \<open>np.mean\<close>; of nothing it is \<open>nan\<close>.\<close>

definition mean :: "real list \<Rightarrow> npfloat" where
  "mean xs = (if xs = [] then NaN else Fin (sum_list xs / real (length xs)))"

text \<open>\<open>np.std\<close>: the population standard deviation (\<open>ddof = 0\<close>).\<close>

definition np_std :: "real list \<Rightarrow> npfloat" where
  "np_std xs =
     (if xs = [] then NaN
      else let m = sum_list xs / real (length xs)
           in Fin (sqrt (sum_list (map (\<lambda>x. (x - m)\<^sup>2) xs) / real (length xs))))"

section \<open>Failures, frames and the data provider\<close>

datatype exn = ProviderError | KeyError | IndexError

text \<open>Positional access \<open>.iloc[i]\<close>: negative positions count from the end, and a
  position outside the frame raises \<open>IndexError\<close>.\<close>

definition iloc :: "'a list \<Rightarrow> int \<Rightarrow> exn + 'a" where
  "iloc xs i =
     (if 0 \<le> i \<and> i < int (length xs) then Inr (xs ! nat i)
      else if i < 0 \<and> - i \<le> int (length xs) then Inr (xs ! nat (int (length xs) + i))
      else Inl IndexError)"

text \<open>Positional slices \<open>.iloc[a:b]\<close> and \<open>.iloc[a:]\<close>: the bounds are clamped to
  the frame, a slice never raises.\<close>

definition clamp_pos :: "nat \<Rightarrow> int \<Rightarrow> nat" where
  "clamp_pos n i = (if i < 0 then nat (max 0 (int n + i)) else min n (nat i))"

definition iloc_slice :: "'a list \<Rightarrow> int \<Rightarrow> int option \<Rightarrow> 'a list" where
  "iloc_slice xs a b =
     (let n = length xs;
          lo = clamp_pos n a;
          hi = (case b of None \<Rightarrow> n | Some j \<Rightarrow> clamp_pos n j)
      in take (hi - lo) (drop lo xs))"

type_synonym symbol = string

text \<open>A row of the daily frame after the renaming of \<open>get_daily_data\<close>.  The filter
  reads the columns \<open>close\<close> and \<open>volume\<close> only.\<close>

record daily_bar =
  close :: real
  volume :: real

text \<open>A row of the one-minute frame: the time of day in seconds, and the price.\<close>

record tick =
  time :: nat
  price :: real

text \<open>The indicator frame of \<open>stock_a_indicator_lg\<close>: either it has no \<open>total_mv\<close>
  column (and some number of rows), or it has the column with one value per row.\<close>

datatype indicator_frame = NoTotalMv nat | WithTotalMv "real list"

fun frame_empty :: "indicator_frame \<Rightarrow> bool" where
  "frame_empty (NoTotalMv n) = (n = 0)"
| "frame_empty (WithTotalMv vs) = (vs = [])"

text \<open>
  The collaborators the program calls, as the results they give: the five \<open>akshare\<close>
  queries (each may raise), and the \<open>ta\<close> library: \<open>bollinger_hband\<close> is the last
  value \<open>upper.iloc[-1]\<close> of the upper Bollinger band (window 20, 2 deviations) of a
  series of closing prices, or the exception raised on the way to it.  An index frame
  is the column of closing prices, or \<open>None\<close> when the frame has no such column.
\<close>

record provider =
  stock_zh_a_hist :: "symbol \<Rightarrow> exn + daily_bar list"
  stock_a_indicator_lg :: "symbol \<Rightarrow> exn + indicator_frame"
  stock_zh_a_spot_em :: "exn + (symbol \<times> real) list"
  stock_zh_a_minute :: "symbol \<Rightarrow> exn + tick list"
  index_zh_a_hist :: "string \<Rightarrow> exn + real list option"
  stock_zh_index_daily :: "string \<Rightarrow> exn + real list option"
  bollinger_hband :: "real list \<Rightarrow> exn + npfloat"

text \<open>The calls a symbol's evaluation makes, in the order it makes them.\<close>

datatype call =
  Call_stock_zh_a_hist symbol
  | Call_stock_a_indicator_lg symbol
  | Call_stock_zh_a_spot_em
  | Call_BollingerBands
  | Call_stock_zh_a_minute symbol

section \<open>Data access functions\<close>

text \<open>\<open>get_daily_data\<close> (lines 10 to 23) renames the columns and parses the dates; the
  rows the filter reads are those of the query.  A frame without the expected columns
  makes it raise, which is one of the ways the query can fail.\<close>

definition get_daily_data :: "provider \<Rightarrow> symbol \<Rightarrow> exn + daily_bar list" where
  "get_daily_data P symbol = stock_zh_a_hist P symbol"

text \<open>Python truth value of \<open>None\<close> or a number.\<close>

fun truthy :: "real option \<Rightarrow> bool" where
  "truthy None = False"
| "truthy (Some x) = (x \<noteq> 0)"

text \<open>\<open>get_float_share_and_mv\<close> (lines 26 to 58) returns the pair
  \<open>(float_share, total_mv)\<close>; every exception inside it ends in \<open>(None, None)\<close>.  The second component of the result is
  the list of provider calls it made.\<close>

definition get_float_share_and_mv ::
  "provider \<Rightarrow> symbol \<Rightarrow> (real option \<times> real option) \<times> call list" where
  "get_float_share_and_mv P symbol =
     (case stock_a_indicator_lg P symbol of
        Inl e \<Rightarrow> ((None, None), [Call_stock_a_indicator_lg symbol])
      | Inr df \<Rightarrow>
          if frame_empty df then ((None, None), [Call_stock_a_indicator_lg symbol])
          else
            (case stock_zh_a_spot_em P of
               Inl e \<Rightarrow>
                 ((None, None), [Call_stock_a_indicator_lg symbol, Call_stock_zh_a_spot_em])
             | Inr spot \<Rightarrow>
                 let price_df = filter (\<lambda>row. fst row = symbol) spot;
                     current_price =
                       (case price_df of [] \<Rightarrow> None | row # _ \<Rightarrow> Some (snd row));
                     total_mv =
                       (case df of
                          NoTotalMv n \<Rightarrow> Inr None
                        | WithTotalMv vs \<Rightarrow>
                            (case iloc vs 0 of
                               Inl e \<Rightarrow> Inl e
                             | Inr v \<Rightarrow> Inr (Some (v * 100000000))))
                 in
                   (case total_mv of
                      Inl e \<Rightarrow> (None, None)
                    | Inr total_mv \<Rightarrow>
                        ((case (total_mv, current_price) of
                            (Some mv, Some cp) \<Rightarrow>
                              if mv \<noteq> 0 \<and> cp \<noteq> 0 \<and> 0 < cp
                              then Some ((mv / cp) * (7 / 10)) else None
                          | _ \<Rightarrow> None),
                         total_mv),
                    [Call_stock_a_indicator_lg symbol, Call_stock_zh_a_spot_em])))"

text \<open>\<open>get_intraday_data\<close> (lines 61 to 67) keeps the ticks at or after 14:30:00.\<close>

definition get_intraday_data :: "provider \<Rightarrow> symbol \<Rightarrow> exn + tick list" where
  "get_intraday_data P symbol =
     (case stock_zh_a_minute P symbol of
        Inl e \<Rightarrow> Inl e
      | Inr df \<Rightarrow> Inr (filter (\<lambda>t. 14 * 3600 + 30 * 60 \<le> time t) df))"

text \<open>\<open>Series.pct_change()\<close>: each value divided by the one before it, minus one; the
  first entry has no predecessor and is \<open>nan\<close>.\<close>

fun pct_change_series :: "real list \<Rightarrow> npfloat list" where
  "pct_change_series [] = []"
| "pct_change_series (x # xs) =
     NaN # map (\<lambda>(prev, cur). Fin cur / Fin prev - Fin 1) (zip (x # xs) xs)"

text \<open>The body of the outer \<open>try\<close> of \<open>get_index_data\<close> (lines 73 to 82): the second
  query is made when the first raises; a frame without the closing-price column raises
  \<open>KeyError\<close>, an empty one \<open>IndexError\<close>.  Then the function itself, whose handler
  returns 0 (lines 83 to 85).\<close>

definition index_body :: "provider \<Rightarrow> string \<Rightarrow> exn + npfloat" where
  "index_body P index_symbol =
     (case (case index_zh_a_hist P index_symbol of
              Inl e \<Rightarrow> stock_zh_index_daily P (''sh'' @ index_symbol)
            | Inr df \<Rightarrow> Inr df) of
        Inl e \<Rightarrow> Inl e
      | Inr None \<Rightarrow> Inl KeyError
      | Inr (Some closes) \<Rightarrow>
          (case iloc (map (\<lambda>q. q * Fin 100) (pct_change_series closes)) (- 1) of
             Inl e \<Rightarrow> Inl e
           | Inr v \<Rightarrow> Inr v))"

definition get_index_data :: "provider \<Rightarrow> string \<Rightarrow> npfloat" where
  "get_index_data P index_symbol =
     (case index_body P index_symbol of Inl e \<Rightarrow> Fin 0 | Inr v \<Rightarrow> v)"

text \<open>The inner \<open>try\<close> of \<open>get_index_data\<close> alone (lines 74 to 78): the frame the
  function goes on with, or the exception of the second query.\<close>

definition index_fetch :: "provider \<Rightarrow> string \<Rightarrow> exn + real list option" where
  "index_fetch P index_symbol =
     (case index_zh_a_hist P index_symbol of
        Inl e \<Rightarrow> stock_zh_index_daily P (''sh'' @ index_symbol)
      | Inr df \<Rightarrow> Inr df)"

section \<open>The filter\<close>

text \<open>The quantities of the nine tests, each as the source computes it (lines 134,
  140 and 141, 147 and 148, 154, 160 and 161, 173, 184 to 186).\<close>

definition pct_change :: "daily_bar \<Rightarrow> daily_bar \<Rightarrow> npfloat" where
  "pct_change today prev_day =
     (Fin (close today) - Fin (close prev_day)) / Fin (close prev_day) * Fin 100"

definition avg_volume_5d :: "daily_bar list \<Rightarrow> npfloat" where
  "avg_volume_5d daily_df = mean (map volume (iloc_slice daily_df (- 6) (Some (- 1))))"

definition volume_ratio :: "daily_bar \<Rightarrow> npfloat \<Rightarrow> npfloat" where
  "volume_ratio today avg = (if avg \<noteq> Fin 0 then Fin (volume today) / avg else Fin 0)"

definition est_turnover_rate :: "daily_bar \<Rightarrow> real \<Rightarrow> npfloat" where
  "est_turnover_rate today total_mv =
     (let turnover_value = Fin (volume today) * Fin (close today)
      in (turnover_value / Fin total_mv) * Fin 100)"

definition est_float_mv :: "real \<Rightarrow> npfloat" where
  "est_float_mv total_mv = Fin total_mv * Fin (7 / 10)"

definition cv :: "daily_bar list \<Rightarrow> npfloat" where
  "cv daily_df =
     (let volumes = map volume (iloc_slice daily_df (- 5) None)
      in if mean volumes \<noteq> Fin 0 then np_std volumes / mean volumes else Fin 0)"

definition resistance_distance :: "npfloat \<Rightarrow> daily_bar \<Rightarrow> npfloat" where
  "resistance_distance upper today =
     (upper - Fin (close today)) / Fin (close today) * Fin 100"

definition vwap :: "tick list \<Rightarrow> npfloat" where
  "vwap intraday_df = mean (map price intraday_df)"

definition stock_pct :: "tick \<Rightarrow> tick \<Rightarrow> npfloat" where
  "stock_pct last_tick first_tick =
     (Fin (price last_tick) - Fin (price first_tick)) / Fin (price first_tick) * Fin 100"

text \<open>The keys of the dictionary \<open>rejected\<close>, in the order of its literal (lines 93 to
  102), under the names the specification gives them.\<close>

datatype reason =
  InsufficientHistory
  | NoValuationData
  | PriceMoveOutOfRange
  | VolumeRatioTooLow
  | TurnoverOutOfRange
  | MarketValueOutOfRange
  | VolumeUnstable
  | BandResistance
  | WeakIntraday
  | EvaluationError

definition all_reasons :: "reason list" where
  "all_reasons =
     [InsufficientHistory, NoValuationData, PriceMoveOutOfRange, VolumeRatioTooLow,
      TurnoverOutOfRange, MarketValueOutOfRange, VolumeUnstable, BandResistance,
      WeakIntraday, EvaluationError]"

text \<open>How one pass through the loop body ends: a counter of \<open>rejected\<close> is
  incremented (followed by \<open>continue\<close>), or the symbol is appended to \<open>selected\<close>.\<close>

datatype outcome = Selected | Rejected reason

text \<open>
  The body of the \<open>try\<close> block (lines 117 to 202) for one symbol: what it does to the
  accumulators, or the exception that leaves it, together with the calls made.
\<close>

definition try_body :: "provider \<Rightarrow> npfloat \<Rightarrow> symbol \<Rightarrow> (exn + outcome) \<times> call list" where
  "try_body P index_pct symbol =
     (case get_daily_data P symbol of
        Inl e \<Rightarrow> (Inl e, [Call_stock_zh_a_hist symbol])
      | Inr daily_df \<Rightarrow>
          if length daily_df < 20
          then (Inr (Rejected InsufficientHistory), [Call_stock_zh_a_hist symbol])
          else
            (case get_float_share_and_mv P symbol of
               ((float_share, total_mv), calls_mv) \<Rightarrow>
                 let calls2 = Call_stock_zh_a_hist symbol # calls_mv in
                 (case (float_share, total_mv) of
                    (Some fs, Some mv) \<Rightarrow>
                      if \<not> (fs \<noteq> 0) \<or> \<not> (mv \<noteq> 0)
                      then (Inr (Rejected NoValuationData), calls2)
                      else
                        (case iloc daily_df (- 1) of
                           Inl e \<Rightarrow> (Inl e, calls2)
                         | Inr today \<Rightarrow>
                        (case iloc daily_df (- 2) of
                           Inl e \<Rightarrow> (Inl e, calls2)
                         | Inr prev_day \<Rightarrow>
                        if \<not> (Fin 3 \<le> pct_change today prev_day
                                \<and> pct_change today prev_day \<le> Fin 5)
                        then (Inr (Rejected PriceMoveOutOfRange), calls2)
                        else if volume_ratio today (avg_volume_5d daily_df) < Fin 1
                        then (Inr (Rejected VolumeRatioTooLow), calls2)
                        else if \<not> (Fin 5 \<le> est_turnover_rate today mv
                                     \<and> est_turnover_rate today mv \<le> Fin 10)
                        then (Inr (Rejected TurnoverOutOfRange), calls2)
                        else if \<not> (Fin 5000000000 \<le> est_float_mv mv
                                     \<and> est_float_mv mv \<le> Fin 20000000000)
                        then (Inr (Rejected MarketValueOutOfRange), calls2)
                        else if Fin (1 / 2) < cv daily_df
                        then (Inr (Rejected VolumeUnstable), calls2)
                        else
                          let calls8 = calls2 @ [Call_BollingerBands] in
                          (case bollinger_hband P (map close daily_df) of
                             Inl e \<Rightarrow> (Inl e, calls8)
                           | Inr upper \<Rightarrow>
                          if resistance_distance upper today < Fin 3
                          then (Inr (Rejected BandResistance), calls8)
                          else
                            let calls9 = calls8 @ [Call_stock_zh_a_minute symbol] in
                            (case get_intraday_data P symbol of
                               Inl e \<Rightarrow> (Inl e, calls9)
                             | Inr intraday_df \<Rightarrow>
                            if intraday_df = []
                            then (Inr (Rejected WeakIntraday), calls9)
                            else
                              (case iloc intraday_df (- 1) of
                                 Inl e \<Rightarrow> (Inl e, calls9)
                               | Inr last_tick \<Rightarrow>
                              (case iloc intraday_df 0 of
                                 Inl e \<Rightarrow> (Inl e, calls9)
                               | Inr first_tick \<Rightarrow>
                              if Fin (close today) < vwap intraday_df
                                 \<or> stock_pct last_tick first_tick < index_pct + Fin 1
                              then (Inr (Rejected WeakIntraday), calls9)
                              else (Inr Selected, calls9)))))))
                  | _ \<Rightarrow> (Inr (Rejected NoValuationData), calls2))))"

text \<open>The \<open>try\<close> statement with its handler (lines 204 to 207): any exception of the
  body counts under the last key.\<close>

definition evaluate :: "provider \<Rightarrow> npfloat \<Rightarrow> symbol \<Rightarrow> outcome \<times> call list" where
  "evaluate P index_pct symbol =
     (case try_body P index_pct symbol of
        (Inl e, calls) \<Rightarrow> (Rejected EvaluationError, calls)
      | (Inr v, calls) \<Rightarrow> (v, calls))"

text \<open>The accumulators of \<open>filter_stocks\<close>.\<close>

record run_state =
  selected :: "symbol list"
  rejected :: "reason \<Rightarrow> nat"
  processed_count :: nat

definition init_state :: run_state where
  "init_state = \<lparr>selected = [], rejected = (\<lambda>r. 0), processed_count = 0\<rparr>"

definition loop_body :: "provider \<Rightarrow> npfloat \<Rightarrow> run_state \<Rightarrow> symbol \<Rightarrow> run_state" where
  "loop_body P index_pct st symbol =
     (let st1 = st\<lparr>processed_count := processed_count st + 1\<rparr>
      in case fst (evaluate P index_pct symbol) of
           Rejected r \<Rightarrow> st1\<lparr>rejected := (rejected st1)(r := rejected st1 r + 1)\<rparr>
         | Selected \<Rightarrow> st1\<lparr>selected := selected st1 @ [symbol]\<rparr>)"

text \<open>The state when the loop of \<open>filter_stocks\<close> ends, and the value the function
  returns (line 219).  The index return is fetched once, before the loop (line 105).\<close>

definition filter_stocks_run :: "provider \<Rightarrow> symbol list \<Rightarrow> run_state" where
  "filter_stocks_run P symbol_list =
     (let index_pct = get_index_data P ''000300''
      in foldl (loop_body P index_pct) init_state symbol_list)"

definition filter_stocks :: "provider \<Rightarrow> symbol list \<Rightarrow> symbol list" where
  "filter_stocks P symbol_list = selected (filter_stocks_run P symbol_list)"

section \<open>The nine tests, by number\<close>

text \<open>
  The tests of the loop body in the order of the source, numbered as in the
  specification's table: the condition under which test \<open>k\<close> lets the symbol through
  (the negation of the source's rejecting \<open>if\<close>), the key it counts under when it does
  not, the stage each external call belongs to, and the calls made when the evaluation
  stops at test \<open>k\<close>.
\<close>

definition test_ok ::
  "npfloat \<Rightarrow> daily_bar list \<Rightarrow> real option \<Rightarrow> real option \<Rightarrow> npfloat \<Rightarrow> tick list
     \<Rightarrow> nat \<Rightarrow> bool" where
  "test_ok index_pct daily_df float_share total_mv upper intraday_df k =
     (let today = last daily_df; prev_day = daily_df ! (length daily_df - 2) in
      if k = 1 then \<not> length daily_df < 20
      else if k = 2 then \<not> (\<not> truthy float_share \<or> \<not> truthy total_mv)
      else if k = 3 then
        Fin 3 \<le> pct_change today prev_day \<and> pct_change today prev_day \<le> Fin 5
      else if k = 4 then \<not> volume_ratio today (avg_volume_5d daily_df) < Fin 1
      else if k = 5 then
        (case total_mv of
           None \<Rightarrow> False
         | Some mv \<Rightarrow>
             Fin 5 \<le> est_turnover_rate today mv \<and> est_turnover_rate today mv \<le> Fin 10)
      else if k = 6 then
        (case total_mv of
           None \<Rightarrow> False
         | Some mv \<Rightarrow>
             Fin 5000000000 \<le> est_float_mv mv \<and> est_float_mv mv \<le> Fin 20000000000)
      else if k = 7 then \<not> Fin (1 / 2) < cv daily_df
      else if k = 8 then \<not> resistance_distance upper today < Fin 3
      else if k = 9 then
        \<not> (intraday_df = [] \<or> Fin (close today) < vwap intraday_df
           \<or> stock_pct (last intraday_df) (hd intraday_df) < index_pct + Fin 1)
      else True)"

definition stage_reason :: "nat \<Rightarrow> reason" where
  "stage_reason k =
     (if k = 1 then InsufficientHistory else if k = 2 then NoValuationData
      else if k = 3 then PriceMoveOutOfRange else if k = 4 then VolumeRatioTooLow
      else if k = 5 then TurnoverOutOfRange else if k = 6 then MarketValueOutOfRange
      else if k = 7 then VolumeUnstable else if k = 8 then BandResistance
      else if k = 9 then WeakIntraday else EvaluationError)"

fun call_stage :: "call \<Rightarrow> nat" where
  "call_stage (Call_stock_zh_a_hist s) = 1"
| "call_stage (Call_stock_a_indicator_lg s) = 2"
| "call_stage Call_stock_zh_a_spot_em = 2"
| "call_stage Call_BollingerBands = 8"
| "call_stage (Call_stock_zh_a_minute s) = 9"

definition stage_calls :: "nat \<Rightarrow> symbol \<Rightarrow> call list \<Rightarrow> call list" where
  "stage_calls k s cs =
     (if k \<le> 1 then [Call_stock_zh_a_hist s]
      else if k \<le> 7 then Call_stock_zh_a_hist s # cs
      else if k = 8 then Call_stock_zh_a_hist s # cs @ [Call_BollingerBands]
      else Call_stock_zh_a_hist s # cs @ [Call_BollingerBands, Call_stock_zh_a_minute s])"

section \<open>The band of the library\<close>

text \<open>
  The source computes the upper band with the \<open>ta\<close> library (lines 168 to 171), which is
  not part of the source.  The library's band is the mean of the last 20 closing prices
  plus 2 population standard deviations of the same 20 prices; where fewer than 20
  prices are available it is \<open>nan\<close>.  This is the value \<open>upper.iloc[-1]\<close>.
\<close>

definition ta_bollinger_hband :: "real list \<Rightarrow> exn + npfloat" where
  "ta_bollinger_hband closes =
     (if length closes < 20 then Inr NaN
      else let window = iloc_slice closes (- 20) None
           in Inr (mean window + Fin 2 * np_std window))"

section \<open>Sample data\<close>

text \<open>
  Twenty daily bars: nineteen sessions falling by 2 a day from 136 to 100, each with
  volume \<open>v_prev\<close>, then today's bar closing at \<open>c\<close> with volume \<open>v\<close>.  A provider that
  serves given daily bars, a given indicator answer and a given one-minute answer, a
  spot price of 104 for the symbol 600000, index closes 4000 and 4020, and the band of
  the library; the same provider for the sample symbol with an index frame of a single
  close, and with a band computation that raises; and a provider whose every query
  raises.
\<close>

definition bars :: "real \<Rightarrow> real \<Rightarrow> real \<Rightarrow> daily_bar list" where
  "bars c v_prev v =
     map (\<lambda>x. \<lparr>close = x, volume = v_prev\<rparr>)
       [136, 134, 132, 130, 128, 126, 124, 122, 120, 118, 116, 114, 112, 110, 108, 106,
        104, 102, 100]
     @ [\<lparr>close = c, volume = v\<rparr>]"

definition ticks_of :: "real \<Rightarrow> real \<Rightarrow> tick list" where
  "ticks_of p0 p1 = [\<lparr>time = 52200, price = p0\<rparr>, \<lparr>time = 53940, price = p1\<rparr>]"

definition sample_provider ::
  "(exn + daily_bar list) \<Rightarrow> (exn + indicator_frame) \<Rightarrow> (exn + tick list) \<Rightarrow> provider" where
  "sample_provider hist ind minute =
     \<lparr>stock_zh_a_hist = (\<lambda>s. hist),
      stock_a_indicator_lg = (\<lambda>s. ind),
      stock_zh_a_spot_em = Inr [(''600000'', 104)],
      stock_zh_a_minute = (\<lambda>s. minute),
      index_zh_a_hist = (\<lambda>s. Inr (Some [4000, 4020])),
      stock_zh_index_daily = (\<lambda>s. Inl ProviderError),
      bollinger_hband = ta_bollinger_hband\<rparr>"

definition single_close_provider :: "(exn + tick list) \<Rightarrow> provider" where
  "single_close_provider minute =
     (sample_provider (Inr (bars 104 7000000 7000000)) (Inr (WithTotalMv [100])) minute)
       \<lparr>index_zh_a_hist := (\<lambda>s. Inr (Some [4000]))\<rparr>"

definition band_down_provider :: "(exn + tick list) \<Rightarrow> provider" where
  "band_down_provider minute =
     (sample_provider (Inr (bars 104 7000000 7000000)) (Inr (WithTotalMv [100])) minute)
       \<lparr>bollinger_hband := (\<lambda>cs. Inl ProviderError)\<rparr>"

definition provider_down :: provider where
  "provider_down =
     \<lparr>stock_zh_a_hist = (\<lambda>s. Inl ProviderError),
      stock_a_indicator_lg = (\<lambda>s. Inl ProviderError),
      stock_zh_a_spot_em = Inl ProviderError,
      stock_zh_a_minute = (\<lambda>s. Inl ProviderError),
      index_zh_a_hist = (\<lambda>s. Inl ProviderError),
      stock_zh_index_daily = (\<lambda>s. Inl ProviderError),
      bollinger_hband = (\<lambda>cs. Inl ProviderError)\<rparr>"

section \<open>Basic facts\<close>

lemma iloc_last: "1 \<le> length xs \<Longrightarrow> iloc xs (- 1) = Inr (last xs)"
  by (cases xs rule: rev_cases) (simp_all add: iloc_def)

lemma iloc_prev: "2 \<le> length xs \<Longrightarrow> iloc xs (- 2) = Inr (xs ! (length xs - 2))"
  by (simp add: iloc_def nat_diff_distrib' int_ops)

lemma iloc_first: "1 \<le> length xs \<Longrightarrow> iloc xs 0 = Inr (hd xs)"
  by (cases xs) (simp_all add: iloc_def)

lemma iloc_last_ne: "xs \<noteq> [] \<Longrightarrow> iloc xs (- 1) = Inr (last xs)"
  by (simp add: iloc_last Suc_leI)

lemma iloc_first_ne: "xs \<noteq> [] \<Longrightarrow> iloc xs 0 = Inr (hd xs)"
  by (simp add: iloc_first Suc_leI)

lemma truthy_Some: "truthy x \<longleftrightarrow> (\<exists>v. x = Some v \<and> v \<noteq> 0)"
  by (cases x) simp_all

lemma valuation_calls:
  "snd (get_float_share_and_mv P s) = [Call_stock_a_indicator_lg s] \<or>
   snd (get_float_share_and_mv P s) = [Call_stock_a_indicator_lg s, Call_stock_zh_a_spot_em]"
  by (simp add: get_float_share_and_mv_def Let_def split: sum.splits)

subsection \<open>The loop\<close>

lemma loop_selected:
  "selected (foldl (loop_body P i) st xs) =
     selected st @ filter (\<lambda>s. fst (evaluate P i s) = Selected) xs"
  by (induction xs arbitrary: st) (auto simp: loop_body_def Let_def split: outcome.splits)

lemma loop_rejected:
  "rejected (foldl (loop_body P i) st xs) r =
     rejected st r + length (filter (\<lambda>s. fst (evaluate P i s) = Rejected r) xs)"
  by (induction xs arbitrary: st) (auto simp: loop_body_def Let_def split: outcome.splits)

lemma loop_processed:
  "processed_count (foldl (loop_body P i) st xs) = processed_count st + length xs"
  by (induction xs arbitrary: st) (auto simp: loop_body_def Let_def split: outcome.splits)

lemma run_selected:
  "selected (filter_stocks_run P xs) =
     filter (\<lambda>s. fst (evaluate P (get_index_data P ''000300'') s) = Selected) xs"
  by (simp add: filter_stocks_run_def loop_selected init_state_def)

lemma run_rejected:
  "rejected (filter_stocks_run P xs) r =
     length (filter (\<lambda>s. fst (evaluate P (get_index_data P ''000300'') s) = Rejected r) xs)"
  by (simp add: filter_stocks_run_def loop_rejected init_state_def)

lemma run_processed: "processed_count (filter_stocks_run P xs) = length xs"
  by (simp add: filter_stocks_run_def loop_processed init_state_def)

lemma buckets:
  "length (filter (\<lambda>s. f s = Selected) xs)
     + sum_list (map (\<lambda>r. length (filter (\<lambda>s. f s = Rejected r) xs)) all_reasons)
   = length xs"
proof (induction xs)
  case Nil
  then show ?case by (simp add: all_reasons_def)
next
  case (Cons x xs)
  show ?case
  proof (cases "f x")
    case Selected
    with Cons show ?thesis by (simp add: all_reasons_def)
  next
    case (Rejected r)
    with Cons show ?thesis by (cases r) (simp_all add: all_reasons_def)
  qed
qed

lemma loop_body_bucket:
  "(selected (loop_body P i st s) = selected st @ [s]
      \<and> rejected (loop_body P i st s) = rejected st)
   \<or> (\<exists>r. selected (loop_body P i st s) = selected st
      \<and> rejected (loop_body P i st s) = (rejected st)(r := rejected st r + 1))"
  by (cases "fst (evaluate P i s)") (auto simp: loop_body_def Let_def)

subsection \<open>The sample data\<close>

lemma length_bars: "length (bars c vp v) = 20"
  by (simp add: bars_def)

lemma last_bars: "last (bars c vp v) = \<lparr>close = c, volume = v\<rparr>"
  by (simp add: bars_def)

lemma prev_bars: "bars c vp v ! 18 = \<lparr>close = 100, volume = vp\<rparr>"
  by (simp add: bars_def)

lemma avg_bars: "avg_volume_5d (bars c vp v) = Fin vp"
  by (simp add: avg_volume_5d_def iloc_slice_def clamp_pos_def bars_def mean_def)

lemma cv_bars: "cv (bars c v v) = Fin 0"
proof -
  have v5: "(v + (v + (v + (v + v)))) / 5 = v" by simp
  show ?thesis
    by (simp add: cv_def iloc_slice_def clamp_pos_def bars_def mean_def np_std_def
        Let_def v5)
qed

lemma np_std_finite: "w \<noteq> [] \<Longrightarrow> \<exists>d. np_std w = Fin d \<and> 0 \<le> d"
proof -
  have "0 \<le> sum_list (map (\<lambda>x. (x - m)\<^sup>2) w)" for m :: real
    by (rule sum_list_nonneg) auto
  then show "w \<noteq> [] \<Longrightarrow> \<exists>d. np_std w = Fin d \<and> 0 \<le> d"
    by (simp add: np_std_def Let_def)
qed

lemma sample_band:
  "\<exists>u. ta_bollinger_hband (map close (bars 104 vp v)) = Inr (Fin u) \<and> 1173 / 10 \<le> u"
proof -
  let ?w = "iloc_slice (map close (bars 104 vp v)) (- 20) None"
  have w: "?w = map close (bars 104 vp v)"
    by (simp add: iloc_slice_def clamp_pos_def bars_def)
  have ne: "?w \<noteq> []"
    unfolding w by (simp add: bars_def)
  have m: "mean ?w = Fin (1173 / 10)"
    unfolding w by (simp add: mean_def bars_def)
  from np_std_finite [OF ne] obtain d where d: "np_std ?w = Fin d" "0 \<le> d"
    by blast
  have "ta_bollinger_hband (map close (bars 104 vp v)) = Inr (Fin (1173 / 10 + 2 * d))"
    by (simp add: ta_bollinger_hband_def length_bars Let_def m d)
  with d(2) show ?thesis
    by simp
qed

lemma sample_fields:
  "stock_zh_a_hist (sample_provider h i m) s = h"
  "stock_a_indicator_lg (sample_provider h i m) s = i"
  "stock_zh_a_spot_em (sample_provider h i m) = Inr [(''600000'', 104)]"
  "stock_zh_a_minute (sample_provider h i m) s = m"
  "index_zh_a_hist (sample_provider h i m) x = Inr (Some [4000, 4020])"
  "bollinger_hband (sample_provider h i m) cs = ta_bollinger_hband cs"
  by (simp_all add: sample_provider_def)

lemma sample_valuation:
  "get_float_share_and_mv (sample_provider h (Inr (WithTotalMv [v])) m) ''600000'' =
     ((if v = 0 then None else Some (v * 100000000 / 104 * (7 / 10)), Some (v * 100000000)),
      [Call_stock_a_indicator_lg ''600000'', Call_stock_zh_a_spot_em])"
  by (simp add: get_float_share_and_mv_def sample_fields iloc_def)

lemma sample_index: "get_index_data (sample_provider h i m) ''000300'' = Fin (1 / 2)"
  by (simp add: get_index_data_def index_body_def sample_fields iloc_def)

lemma sample_intraday:
  "get_intraday_data (sample_provider h i (Inr (ticks_of p q))) s = Inr (ticks_of p q)"
  by (simp add: get_intraday_data_def sample_fields ticks_of_def)

lemmas quantity_defs = pct_change_def volume_ratio_def est_turnover_rate_def est_float_mv_def
  resistance_distance_def vwap_def stock_pct_def mean_def

subsection \<open>The first failing test\<close>

lemma first_failure:
  assumes hist: "stock_zh_a_hist P s = Inr df"
    and val: "get_float_share_and_mv P s = ((fs, mv), cs)"
    and k: "1 \<le> k" "k \<le> 9"
    and before: "\<forall>j. 1 \<le> j \<and> j < k \<longrightarrow> test_ok idx df fs mv u ticks j"
    and fails: "\<not> test_ok idx df fs mv u ticks k"
    and lib: "8 \<le> k \<longrightarrow> bollinger_hband P (map close df) = Inr u"
    and intra: "k = 9 \<longrightarrow> get_intraday_data P s = Inr ticks"
  shows "try_body P idx s = (Inr (Rejected (stage_reason k)), stage_calls k s cs)"
proof -
  note defs = try_body_def get_daily_data_def test_ok_def stage_calls_def stage_reason_def
    Let_def iloc_last iloc_prev iloc_first_ne iloc_last_ne truthy_Some
  have b: "j < k \<Longrightarrow> 1 \<le> j \<Longrightarrow> test_ok idx df fs mv u ticks j" for j
    using before by blast
  consider "k = 1" | "k = 2" | "k = 3" | "k = 4" | "k = 5" | "k = 6" | "k = 7" | "k = 8" | "k = 9"
    using k by linarith
  then show ?thesis
  proof cases
    case 1
    with fails hist show ?thesis
      by (simp add: defs)
  next
    case 2
    with fails hist val b [of 1] show ?thesis
      by (cases fs; cases mv) (simp_all add: defs)
  next
    case 3
    with fails hist val b [of 1] b [of 2] show ?thesis
      by (auto simp add: defs)
  next
    case 4
    with fails hist val b [of 1] b [of 2] b [of 3] show ?thesis
      by (auto simp add: defs)
  next
    case 5
    with fails hist val b [of 1] b [of 2] b [of 3] b [of 4] show ?thesis
      by (auto simp add: defs)
  next
    case 6
    with fails hist val b [of 1] b [of 2] b [of 3] b [of 4] b [of 5] show ?thesis
      by (auto simp add: defs)
  next
    case 7
    with fails hist val b [of 1] b [of 2] b [of 3] b [of 4] b [of 5] b [of 6] show ?thesis
      by (auto simp add: defs)
  next
    case 8
    with fails hist val lib b [of 1] b [of 2] b [of 3] b [of 4] b [of 5] b [of 6] b [of 7]
    show ?thesis
      by (auto simp add: defs)
  next
    case 9
    with fails hist val lib intra
      b [of 1] b [of 2] b [of 3] b [of 4] b [of 5] b [of 6] b [of 7] b [of 8]
    show ?thesis
      by (auto simp add: defs)
  qed
qed

lemma stage_calls_bound:
  assumes "1 \<le> k" "k \<le> 9"
    and "cs = snd (get_float_share_and_mv P s)"
  shows "(\<forall>c\<in>set (stage_calls k s cs). call_stage c \<le> k)
    \<and> sorted (map call_stage (stage_calls k s cs))"
proof -
  consider "k = 1" | "2 \<le> k" "k \<le> 7" | "k = 8" | "k = 9"
    using assms(1,2) by linarith
  then show ?thesis
    using valuation_calls [of P s] assms(3)
    by cases (auto simp add: stage_calls_def)
qed

subsection \<open>Evaluating the sample data\<close>

lemmas eval_defs = evaluate_def try_body_def get_daily_data_def Let_def
  iloc_last iloc_prev iloc_first_ne iloc_last_ne

lemmas sample_simps = sample_fields sample_valuation sample_intraday length_bars last_bars
  prev_bars avg_bars cv_bars quantity_defs

lemma down_eval:
  "evaluate provider_down idx s = (Rejected EvaluationError, [Call_stock_zh_a_hist s])"
  by (simp add: eval_defs provider_down_def)

subsection \<open>The tests one by one\<close>

lemma not_valuation_after_stage2:
  assumes hist: "stock_zh_a_hist P s = Inr df"
    and len: "20 \<le> length df"
    and val: "get_float_share_and_mv P s = ((fs, mv), cs)"
  shows "fst (evaluate P idx s) = Rejected NoValuationData \<longleftrightarrow> \<not> (truthy fs \<and> truthy mv)"
  using assms
  by (cases fs; cases mv) (auto simp add: eval_defs split: sum.splits)

lemma iloc_0: "iloc xs 0 = (case xs of [] \<Rightarrow> Inl IndexError | x # _ \<Rightarrow> Inr x)"
  by (cases xs) (simp_all add: iloc_def)

lemma valuation_resolves:
  assumes val: "get_float_share_and_mv P s = ((fs, mv), cs)"
  shows "truthy fs \<and> truthy mv \<longleftrightarrow>
     (\<exists>v vs spot row rest.
          stock_a_indicator_lg P s = Inr (WithTotalMv (v # vs)) \<and> v \<noteq> 0
        \<and> stock_zh_a_spot_em P = Inr spot
        \<and> filter (\<lambda>row. fst row = s) spot = row # rest \<and> 0 < snd row
        \<and> mv = Some (v * 100000000)
        \<and> fs = Some (v * 100000000 / snd row * (7 / 10)))"
  using val
  by (auto simp add: get_float_share_and_mv_def Let_def iloc_0
      split: sum.splits indicator_frame.splits list.splits option.splits if_splits)

lemma price_move_iff:
  assumes hist: "stock_zh_a_hist P s = Inr df"
    and len: "20 \<le> length df"
    and val: "get_float_share_and_mv P s = ((fs, mv), cs)"
    and tr: "truthy fs" "truthy mv"
  shows "fst (evaluate P idx s) = Rejected PriceMoveOutOfRange \<longleftrightarrow>
     \<not> (Fin 3 \<le> pct_change (last df) (df ! (length df - 2))
        \<and> pct_change (last df) (df ! (length df - 2)) \<le> Fin 5)"
  using assms
  by (cases fs; cases mv) (auto simp add: eval_defs split: sum.splits)

lemma stage4_zero_mean:
  assumes hist: "stock_zh_a_hist P s = Inr df"
    and len: "20 \<le> length df"
    and val: "get_float_share_and_mv P s = ((fs, mv), cs)"
    and tr: "truthy fs" "truthy mv"
    and ok3: "Fin 3 \<le> pct_change (last df) (df ! (length df - 2))"
             "pct_change (last df) (df ! (length df - 2)) \<le> Fin 5"
    and zero: "avg_volume_5d df = Fin 0"
  shows "evaluate P idx s = (Rejected VolumeRatioTooLow, Call_stock_zh_a_hist s # cs)"
  using assms
  by (cases fs; cases mv) (auto simp add: eval_defs volume_ratio_def)

lemma stage9:
  assumes hist: "stock_zh_a_hist P s = Inr df"
    and val: "get_float_share_and_mv P s = ((fs, mv), cs)"
    and lib: "bollinger_hband P (map close df) = Inr u"
    and intra: "get_intraday_data P s = Inr ticks"
    and before: "\<forall>j. 1 \<le> j \<and> j \<le> 8 \<longrightarrow> test_ok idx df fs mv u ticks j"
  shows "try_body P idx s =
     (Inr (if ticks = [] \<or> Fin (close (last df)) < vwap ticks
            \<or> stock_pct (last ticks) (hd ticks) < idx + Fin 1
         then Rejected WeakIntraday else Selected), stage_calls 9 s cs)"
proof -
  have b: "1 \<le> j \<Longrightarrow> j \<le> 8 \<Longrightarrow> test_ok idx df fs mv u ticks j" for j
    using before by blast
  from hist val lib intra b [of 1] b [of 2] b [of 3] b [of 4] b [of 5] b [of 6] b [of 7] b [of 8]
  show ?thesis
    by (auto simp add: try_body_def get_daily_data_def test_ok_def stage_calls_def Let_def
          iloc_last iloc_prev iloc_first_ne iloc_last_ne truthy_Some)
qed

lemma intraday_of_raw:
  "stock_zh_a_minute P s = Inr raw \<Longrightarrow>
   get_intraday_data P s = Inr (filter (\<lambda>t. 14 * 3600 + 30 * 60 \<le> time t) raw)"
  by (simp add: get_intraday_data_def)

lemma sample_tests_ok7:
  assumes "1 \<le> j" "j \<le> 7"
  shows "test_ok idx (bars 104 7000000 7000000) (Some (100 * 100000000 / 104 * (7 / 10)))
     (Some (100 * 100000000)) u ticks j"
proof -
  from assms have "j = 1 \<or> j = 2 \<or> j = 3 \<or> j = 4 \<or> j = 5 \<or> j = 6 \<or> j = 7"
    by linarith
  then show ?thesis
    by (elim disjE) (simp_all add: test_ok_def sample_simps)
qed

lemma sample_tests_ok:
  assumes "1 \<le> j" "j \<le> 8" and u: "1173 / 10 \<le> u"
  shows "test_ok idx (bars 104 7000000 7000000) (Some (100 * 100000000 / 104 * (7 / 10)))
     (Some (100 * 100000000)) (Fin u) ticks j"
proof (cases "j = 8")
  case True
  with u show ?thesis
    by (simp add: test_ok_def last_bars resistance_distance_def)
next
  case False
  with assms have "j \<le> 7" by simp
  with assms(1) show ?thesis by (rule sample_tests_ok7)
qed

lemma sample_reaches9:
  "\<exists>u. bollinger_hband (sample_provider h i m) (map close (bars 104 7000000 7000000)) = Inr u
     \<and> (\<forall>idx ticks j. 1 \<le> j \<and> j \<le> 8 \<longrightarrow>
          test_ok idx (bars 104 7000000 7000000) (Some (100 * 100000000 / 104 * (7 / 10)))
            (Some (100 * 100000000)) u ticks j)"
proof -
  from sample_band [of 7000000 7000000] obtain u
    where u: "ta_bollinger_hband (map close (bars 104 7000000 7000000)) = Inr (Fin u)"
      "1173 / 10 \<le> u"
    by blast
  have "bollinger_hband (sample_provider h i m) (map close (bars 104 7000000 7000000))
      = Inr (Fin u)"
    by (simp add: sample_fields u(1))
  with sample_tests_ok [OF _ _ u(2)] show ?thesis
    by blast
qed

lemma sample_stage9_fields:
  assumes h: "stock_zh_a_hist P ''600000'' = Inr (bars 104 7000000 7000000)"
    and ind: "stock_a_indicator_lg P ''600000'' = Inr (WithTotalMv [100])"
    and spot: "stock_zh_a_spot_em P = Inr [(''600000'', 104)]"
    and band: "bollinger_hband P = ta_bollinger_hband"
    and minute: "stock_zh_a_minute P ''600000'' = Inr raw"
  shows "evaluate P idx ''600000''
   = ((let ticks = filter (\<lambda>t. 14 * 3600 + 30 * 60 \<le> time t) raw
       in if ticks = [] \<or> Fin 104 < vwap ticks
             \<or> stock_pct (last ticks) (hd ticks) < idx + Fin 1
          then Rejected WeakIntraday else Selected),
      [Call_stock_zh_a_hist ''600000'', Call_stock_a_indicator_lg ''600000'',
       Call_stock_zh_a_spot_em, Call_BollingerBands, Call_stock_zh_a_minute ''600000''])"
proof -
  let ?ticks = "filter (\<lambda>t. 14 * 3600 + 30 * 60 \<le> time t) raw"
  have v: "get_float_share_and_mv P ''600000'' =
      ((Some (100 * 100000000 / 104 * (7 / 10)), Some (100 * 100000000)),
       [Call_stock_a_indicator_lg ''600000'', Call_stock_zh_a_spot_em])"
    by (simp add: get_float_share_and_mv_def ind spot iloc_def)
  have i: "get_intraday_data P ''600000'' = Inr ?ticks"
    by (rule intraday_of_raw [OF minute])
  from sample_band [of 7000000 7000000] obtain u
    where u: "ta_bollinger_hband (map close (bars 104 7000000 7000000)) = Inr (Fin u)"
      "1173 / 10 \<le> u"
    by blast
  have l: "bollinger_hband P (map close (bars 104 7000000 7000000)) = Inr (Fin u)"
    by (simp add: band u(1))
  have b: "\<forall>j. 1 \<le> j \<and> j \<le> 8 \<longrightarrow>
      test_ok idx (bars 104 7000000 7000000) (Some (100 * 100000000 / 104 * (7 / 10)))
        (Some (100 * 100000000)) (Fin u) ?ticks j"
    using sample_tests_ok [OF _ _ u(2)] by blast
  from stage9 [OF h v l i b] show ?thesis
    by (simp add: evaluate_def stage_calls_def last_bars Let_def)
qed

lemma sample_stage9:
  "evaluate (sample_provider (Inr (bars 104 7000000 7000000)) (Inr (WithTotalMv [100]))
       (Inr raw)) idx ''600000''
   = ((let ticks = filter (\<lambda>t. 14 * 3600 + 30 * 60 \<le> time t) raw
       in if ticks = [] \<or> Fin 104 < vwap ticks
             \<or> stock_pct (last ticks) (hd ticks) < idx + Fin 1
          then Rejected WeakIntraday else Selected),
      [Call_stock_zh_a_hist ''600000'', Call_stock_a_indicator_lg ''600000'',
       Call_stock_zh_a_spot_em, Call_BollingerBands, Call_stock_zh_a_minute ''600000''])"
  by (rule sample_stage9_fields) (simp_all add: sample_provider_def)

lemma sample_selected:
  "evaluate (sample_provider (Inr (bars 104 7000000 7000000)) (Inr (WithTotalMv [100]))
       (Inr (ticks_of 100 102))) (Fin (1 / 2)) ''600000''
   = (Selected,
      [Call_stock_zh_a_hist ''600000'', Call_stock_a_indicator_lg ''600000'',
       Call_stock_zh_a_spot_em, Call_BollingerBands, Call_stock_zh_a_minute ''600000''])"
  by (simp add: sample_stage9) (simp add: ticks_of_def vwap_def stock_pct_def mean_def)

lemma band_failure_raises:
  assumes hist: "stock_zh_a_hist P s = Inr df"
    and val: "get_float_share_and_mv P s = ((fs, mv), cs)"
    and before: "\<forall>j. 1 \<le> j \<and> j \<le> 7 \<longrightarrow> test_ok idx df fs mv u ticks j"
    and lib: "bollinger_hband P (map close df) = Inl e"
  shows "try_body P idx s = (Inl e, stage_calls 8 s cs)"
proof -
  have b: "1 \<le> j \<Longrightarrow> j \<le> 7 \<Longrightarrow> test_ok idx df fs mv u ticks j" for j
    using before by blast
  from hist val lib b [of 1] b [of 2] b [of 3] b [of 4] b [of 5] b [of 6] b [of 7]
  show ?thesis
    by (auto simp add: try_body_def get_daily_data_def test_ok_def stage_calls_def Let_def
          iloc_last iloc_prev truthy_Some)
qed

lemma minute_failure_raises:
  assumes hist: "stock_zh_a_hist P s = Inr df"
    and val: "get_float_share_and_mv P s = ((fs, mv), cs)"
    and before: "\<forall>j. 1 \<le> j \<and> j \<le> 8 \<longrightarrow> test_ok idx df fs mv u ticks j"
    and lib: "bollinger_hband P (map close df) = Inr u"
    and minute: "stock_zh_a_minute P s = Inl e"
  shows "try_body P idx s = (Inl e, stage_calls 9 s cs)"
proof -
  have b: "1 \<le> j \<Longrightarrow> j \<le> 8 \<Longrightarrow> test_ok idx df fs mv u ticks j" for j
    using before by blast
  from hist val lib minute
    b [of 1] b [of 2] b [of 3] b [of 4] b [of 5] b [of 6] b [of 7] b [of 8]
  show ?thesis
    by (auto simp add: try_body_def get_daily_data_def get_intraday_data_def test_ok_def
          stage_calls_def Let_def iloc_last iloc_prev truthy_Some)
qed

lemma valuation_failure_absorbed:
  assumes "stock_a_indicator_lg P s = Inl e \<or> stock_zh_a_spot_em P = Inl e"
  shows "fst (get_float_share_and_mv P s) = (None, None)"
  using assms by (auto simp add: get_float_share_and_mv_def split: sum.splits)

lemma evaluation_error_sources:
  assumes "fst (evaluate P idx s) = Rejected EvaluationError"
  shows "(\<exists>e. stock_zh_a_hist P s = Inl e)
    \<or> (\<exists>e df. stock_zh_a_hist P s = Inr df \<and> bollinger_hband P (map close df) = Inl e)
    \<or> (\<exists>e. stock_zh_a_minute P s = Inl e)"
proof (cases "stock_zh_a_hist P s")
  case (Inl e)
  then show ?thesis by blast
next
  case (Inr df)
  obtain fs mv cs where val: "get_float_share_and_mv P s = ((fs, mv), cs)"
    by (metis surj_pair)
  show ?thesis
  proof (cases "bollinger_hband P (map close df)")
    case (Inl e)
    with Inr show ?thesis by blast
  next
    case band: (Inr u)
    show ?thesis
    proof (cases "stock_zh_a_minute P s")
      case (Inl e)
      then show ?thesis by blast
    next
      case minute: (Inr raw)
      from assms Inr val band minute have False
        by (cases fs; cases mv)
           (auto simp add: eval_defs get_intraday_data_def split: if_splits)
      then show ?thesis ..
    qed
  qed
qed

lemma stock_pct_zero_first:
  "price first_tick = 0 \<Longrightarrow>
   stock_pct last_tick first_tick =
     (if 0 < price last_tick then PInf else if price last_tick < 0 then NInf else NaN)"
  by (simp add: stock_pct_def)

lemma daily_failure_raises:
  "stock_zh_a_hist P s = Inl e \<Longrightarrow> try_body P idx s = (Inl e, [Call_stock_zh_a_hist s])"
  by (simp add: try_body_def get_daily_data_def)

subsection \<open>The index return\<close>

lemma pct_change_last:
  assumes "2 \<le> length closes"
  shows "last (pct_change_series closes)
     = Fin (last closes) / Fin (closes ! (length closes - 2)) - Fin 1"
proof -
  from assms obtain x xs where c: "closes = x # xs" and ne: "xs \<noteq> []"
    by (cases closes) (auto simp add: Suc_le_eq)
  let ?ys = "map (\<lambda>(prev, cur). Fin cur / Fin prev - Fin 1) (zip (x # xs) xs)"
  have len: "length ?ys = length xs" by simp
  then have ys: "?ys \<noteq> []" using ne by (metis length_0_conv)
  have "last (pct_change_series closes) = last ?ys"
    using ys by (simp add: c)
  also have "\<dots> = ?ys ! (length xs - 1)"
    using ys len by (simp add: last_conv_nth)
  also have "\<dots> = Fin (xs ! (length xs - 1)) / Fin ((x # xs) ! (length xs - 1)) - Fin 1"
    using ne by simp
  also have "xs ! (length xs - 1) = last closes"
    using ne by (simp add: c last_conv_nth)
  also have "(x # xs) ! (length xs - 1) = closes ! (length closes - 2)"
    by (simp add: c)
  finally show ?thesis .
qed

lemma pct_formula:
  "(Fin a / Fin b - Fin 1) * Fin 100 = (Fin a - Fin b) / Fin b * Fin 100"
  by (simp add: field_simps)

lemma index_single_close:
  "index_zh_a_hist P x = Inr (Some [c]) \<Longrightarrow> get_index_data P x = NaN"
  by (simp add: get_index_data_def index_body_def iloc_def)

lemma index_success:
  assumes "index_zh_a_hist P x = Inr (Some closes)
     \<or> (index_zh_a_hist P x = Inl e1 \<and> stock_zh_index_daily P (''sh'' @ x) = Inr (Some closes))"
    and "2 \<le> length closes"
  shows "get_index_data P x
     = (Fin (last closes) - Fin (closes ! (length closes - 2)))
         / Fin (closes ! (length closes - 2)) * Fin 100"
proof -
  have ne: "pct_change_series closes \<noteq> []"
    using assms(2) by (cases closes) auto
  have "index_body P x = Inr (last (pct_change_series closes) * Fin 100)"
    using assms(1) ne by (auto simp add: index_body_def iloc_last_ne last_map)
  then have "get_index_data P x = last (pct_change_series closes) * Fin 100"
    by (simp add: get_index_data_def)
  then show ?thesis
    by (simp only: pct_change_last [OF assms(2)] pct_formula)
qed

lemma index_of_fetch:
  "get_index_data P x =
     (case index_fetch P x of
        Inl e \<Rightarrow> Fin 0
      | Inr None \<Rightarrow> Fin 0
      | Inr (Some closes) \<Rightarrow>
          (case pct_change_series closes of [] \<Rightarrow> Fin 0 | q # qs \<Rightarrow> last (q # qs) * Fin 100))"
proof -
  have nil: "iloc (map (\<lambda>q. q * Fin 100) []) (- 1) = Inl IndexError"
    by (simp add: iloc_def)
  have cons: "iloc (map (\<lambda>q. q * Fin 100) (q # qs)) (- 1) = Inr (last (q # qs) * Fin 100)"
    for q qs
  proof -
    have "iloc (map (\<lambda>q. q * Fin 100) (q # qs)) (- 1)
        = Inr (last (map (\<lambda>q. q * Fin 100) (q # qs)))"
      by (rule iloc_last_ne) simp
    also have "last (map (\<lambda>q. q * Fin 100) (q # qs)) = last (q # qs) * Fin 100"
      by (rule last_map) simp
    finally show ?thesis .
  qed
  show ?thesis
    by (auto simp add: get_index_data_def index_body_def index_fetch_def nil cons
        simp del: list.map last.simps
        split: sum.splits option.splits list.splits)
qed

lemma index_two_closes:
  assumes "index_fetch P x = Inr (Some closes)" and "2 \<le> length closes"
  shows "get_index_data P x
     = (Fin (last closes) - Fin (closes ! (length closes - 2)))
         / Fin (closes ! (length closes - 2)) * Fin 100"
proof -
  have "index_zh_a_hist P x = Inr (Some closes)
     \<or> (index_zh_a_hist P x = Inl (projl (index_zh_a_hist P x))
         \<and> stock_zh_index_daily P (''sh'' @ x) = Inr (Some closes))"
    using assms(1) by (auto simp add: index_fetch_def split: sum.splits)
  then show ?thesis
    using assms(2) by (rule index_success)
qed

section \<open>The accounting of a run\<close>

text \<open>
  C1.  For every list of symbols the accounting of the run is exact.  The number of
  symbols processed is the length of the list, and it equals the number of selected
  symbols plus the sum of the ten rejection counters.  Every pass through the loop
  body puts its symbol into exactly one bucket: it either appends the symbol to
  \<open>selected\<close> and leaves every counter alone, or leaves \<open>selected\<close> alone and adds one to
  exactly one counter.  At the end \<open>selected\<close> holds the symbols whose evaluation ended
  in selection, and the counter of a reason counts the symbols rejected for it.
\<close>

theorem accounting_exact:
  "processed_count (filter_stocks_run P symbol_list) = length symbol_list
   \<and> processed_count (filter_stocks_run P symbol_list)
       = length (selected (filter_stocks_run P symbol_list))
         + sum_list (map (rejected (filter_stocks_run P symbol_list)) all_reasons)
   \<and> selected (filter_stocks_run P symbol_list)
       = filter (\<lambda>s. fst (evaluate P (get_index_data P ''000300'') s) = Selected) symbol_list
   \<and> (\<forall>r. rejected (filter_stocks_run P symbol_list) r
       = length (filter (\<lambda>s. fst (evaluate P (get_index_data P ''000300'') s) = Rejected r)
           symbol_list))
   \<and> (\<forall>i st s.
        (selected (loop_body P i st s) = selected st @ [s]
           \<and> rejected (loop_body P i st s) = rejected st)
        \<or> (\<exists>r. selected (loop_body P i st s) = selected st
           \<and> rejected (loop_body P i st s) = (rejected st)(r := rejected st r + 1)))"
proof -
  let ?f = "\<lambda>s. fst (evaluate P (get_index_data P ''000300'') s)"
  have rej: "rejected (filter_stocks_run P symbol_list)
      = (\<lambda>r. length (filter (\<lambda>s. ?f s = Rejected r) symbol_list))"
    by (rule ext) (simp add: run_rejected)
  have total: "length symbol_list
      = length (selected (filter_stocks_run P symbol_list))
        + sum_list (map (rejected (filter_stocks_run P symbol_list)) all_reasons)"
    using buckets [of ?f symbol_list] by (simp add: run_selected rej)
  have step: "\<forall>i st s.
        (selected (loop_body P i st s) = selected st @ [s]
           \<and> rejected (loop_body P i st s) = rejected st)
        \<or> (\<exists>r. selected (loop_body P i st s) = selected st
           \<and> rejected (loop_body P i st s) = (rejected st)(r := rejected st r + 1))"
    using loop_body_bucket by blast
  from total step show ?thesis
    by (simp add: run_processed run_selected run_rejected)
qed

section \<open>Order of the tests and early exit\<close>

text \<open>
  C2.  The nine tests run in the fixed order 1 minimum history, 2 valuation
  availability, 3 daily price move, 4 volume surge, 5 turnover, 6 float market value,
  7 volume stability, 8 band headroom, 9 intraday strength.  When a symbol passes the
  tests before test \<open>k\<close> and fails test \<open>k\<close>, its verdict is exactly the rejection
  reason of test \<open>k\<close>, whatever the data of the later tests are (the band value \<open>u\<close> is
  only constrained from test 8 on, the ticks only at test 9, and the one-minute query
  may even raise).  The calls made are exactly those up to test \<open>k\<close>: no call of a later
  stage is made, and the calls are made in the order of the stages.
\<close>

theorem short_circuit:
  assumes hist: "stock_zh_a_hist P s = Inr df"
    and val: "get_float_share_and_mv P s = ((fs, mv), cs)"
    and k: "1 \<le> k" "k \<le> 9"
    and before: "\<forall>j. 1 \<le> j \<and> j < k \<longrightarrow> test_ok idx df fs mv u ticks j"
    and fails: "\<not> test_ok idx df fs mv u ticks k"
    and lib: "8 \<le> k \<longrightarrow> bollinger_hband P (map close df) = Inr u"
    and intra: "k = 9 \<longrightarrow> get_intraday_data P s = Inr ticks"
  shows "evaluate P idx s = (Rejected (stage_reason k), stage_calls k s cs)
    \<and> (\<forall>c\<in>set (snd (evaluate P idx s)). call_stage c \<le> k)
    \<and> sorted (map call_stage (snd (evaluate P idx s)))"
proof -
  have ev: "evaluate P idx s = (Rejected (stage_reason k), stage_calls k s cs)"
    using first_failure [OF assms] by (simp add: evaluate_def)
  have "cs = snd (get_float_share_and_mv P s)"
    using val by simp
  from stage_calls_bound [OF k this] ev show ?thesis
    by simp
qed

theorem short_circuit_witness:
  "evaluate (sample_provider (Inr (bars 104 7000000 3500000)) (Inr (WithTotalMv [100]))
        (Inl ProviderError)) (Fin (1 / 2)) ''600000''
   = (Rejected VolumeRatioTooLow,
      [Call_stock_zh_a_hist ''600000'', Call_stock_a_indicator_lg ''600000'',
       Call_stock_zh_a_spot_em])"
proof -
  let ?df = "bars 104 7000000 3500000"
  let ?P = "sample_provider (Inr ?df) (Inr (WithTotalMv [100])) (Inl ProviderError)"
  let ?ok = "test_ok (Fin (1 / 2)) ?df (Some (100 * 100000000 / 104 * (7 / 10)))
      (Some (100 * 100000000)) NaN []"
  have h: "stock_zh_a_hist ?P ''600000'' = Inr ?df"
    by (simp add: sample_fields)
  have v: "get_float_share_and_mv ?P ''600000'' =
      ((Some (100 * 100000000 / 104 * (7 / 10)), Some (100 * 100000000)),
       [Call_stock_a_indicator_lg ''600000'', Call_stock_zh_a_spot_em])"
    by (simp add: sample_valuation)
  have ok: "?ok 1" "?ok 2" "?ok 3"
    by (simp_all add: test_ok_def length_bars last_bars prev_bars quantity_defs)
  have before: "\<forall>j. 1 \<le> j \<and> j < 4 \<longrightarrow> ?ok j"
  proof (intro allI impI)
    fix j :: nat assume "1 \<le> j \<and> j < 4"
    then have "j = 1 \<or> j = 2 \<or> j = 3" by linarith
    with ok show "?ok j" by blast
  qed
  have fails: "\<not> ?ok 4"
    by (simp add: test_ok_def length_bars last_bars prev_bars avg_bars quantity_defs)
  from short_circuit [OF h v _ _ before fails]
  show ?thesis
    by (simp add: stage_reason_def stage_calls_def)
qed

section \<open>The returned value\<close>

text \<open>
  C3 (as the code has it).  For every list of symbols \<open>filter_stocks\<close> returns the
  list \<open>selected\<close> alone (line 219): the symbols whose evaluation ended in selection, in
  the order of the input.  The rejection counters and the number of processed symbols
  live in the accumulators of the run and are printed; they are not part of the
  returned value.
\<close>

theorem returns_selected_only:
  "filter_stocks P symbol_list = selected (filter_stocks_run P symbol_list)
   \<and> filter_stocks P symbol_list
       = filter (\<lambda>s. fst (evaluate P (get_index_data P ''000300'') s) = Selected) symbol_list"
  by (simp add: filter_stocks_def run_selected)

text \<open>The run over one fully passing symbol returns that symbol.\<close>

theorem returns_selected_only_witness:
  "filter_stocks (sample_provider (Inr (bars 104 7000000 7000000)) (Inr (WithTotalMv [100]))
       (Inr (ticks_of 100 102))) [''600000''] = [''600000'']"
  using returns_selected_only [of "sample_provider (Inr (bars 104 7000000 7000000))
       (Inr (WithTotalMv [100])) (Inr (ticks_of 100 102))" "[''600000'']", THEN conjunct2]
  by (simp add: sample_index sample_selected)

text \<open>
  The returned value does not carry the counts: with every query failing, the run over
  no symbol and the run over one symbol return the same value, while the number of
  processed symbols and the error counter differ.
\<close>

theorem return_value_omits_counts:
  "filter_stocks provider_down [] = filter_stocks provider_down [''600000'']
   \<and> processed_count (filter_stocks_run provider_down [])
       \<noteq> processed_count (filter_stocks_run provider_down [''600000''])
   \<and> rejected (filter_stocks_run provider_down []) EvaluationError
       \<noteq> rejected (filter_stocks_run provider_down [''600000'']) EvaluationError"
  by (simp add: filter_stocks_def run_selected run_processed run_rejected down_eval)

section \<open>Valuation availability\<close>

text \<open>
  C4 (as the code has it).  For a symbol with at least 20 daily bars, test 2 rejects
  with the valuation reason exactly when \<open>float_share\<close> or \<open>total_mv\<close> is \<open>None\<close> or zero
  (the Python truth value).  An unresolved field always rejects; it is never used as
  the number 0.  Both values are resolved and non-zero exactly when the indicator frame
  has a \<open>total_mv\<close> column whose first value is not zero and the spot frame has a row
  for the symbol with a positive price.  The sign of \<open>total_mv\<close> is not tested: a
  negative market value passes test 2.
\<close>

theorem valuation_stage:
  assumes hist: "stock_zh_a_hist P s = Inr df"
    and len: "20 \<le> length df"
    and val: "get_float_share_and_mv P s = ((fs, mv), cs)"
  shows "(fst (evaluate P idx s) = Rejected NoValuationData \<longleftrightarrow> \<not> (truthy fs \<and> truthy mv))
    \<and> (fs = None \<or> mv = None \<longrightarrow> fst (evaluate P idx s) = Rejected NoValuationData)
    \<and> (truthy fs \<and> truthy mv \<longleftrightarrow>
         (\<exists>v vs spot row rest.
              stock_a_indicator_lg P s = Inr (WithTotalMv (v # vs)) \<and> v \<noteq> 0
            \<and> stock_zh_a_spot_em P = Inr spot
            \<and> filter (\<lambda>row. fst row = s) spot = row # rest \<and> 0 < snd row
            \<and> mv = Some (v * 100000000)
            \<and> fs = Some (v * 100000000 / snd row * (7 / 10))))"
proof -
  have a: "fst (evaluate P idx s) = Rejected NoValuationData \<longleftrightarrow> \<not> (truthy fs \<and> truthy mv)"
    by (rule not_valuation_after_stage2 [OF hist len val])
  have b: "fs = None \<or> mv = None \<longrightarrow> fst (evaluate P idx s) = Rejected NoValuationData"
    using a by auto
  from a b valuation_resolves [OF val] show ?thesis
    by blast
qed

theorem valuation_stage_witness:
  "truthy (Some (100 * 100000000 / 104 * (7 / 10))) \<and> truthy (Some (100 * 100000000))
   \<and> fst (evaluate (sample_provider (Inr (bars 104 7000000 7000000)) (Inr (WithTotalMv [100]))
       (Inr (ticks_of 100 102))) (Fin (1 / 2)) ''600000'') \<noteq> Rejected NoValuationData"
proof -
  let ?P = "sample_provider (Inr (bars 104 7000000 7000000)) (Inr (WithTotalMv [100]))
       (Inr (ticks_of 100 102))"
  have h: "stock_zh_a_hist ?P ''600000'' = Inr (bars 104 7000000 7000000)"
    by (simp add: sample_fields)
  have l: "20 \<le> length (bars 104 7000000 7000000)"
    by (simp add: length_bars)
  have v: "get_float_share_and_mv ?P ''600000'' =
      ((Some (100 * 100000000 / 104 * (7 / 10)), Some (100 * 100000000)),
       [Call_stock_a_indicator_lg ''600000'', Call_stock_zh_a_spot_em])"
    by (simp add: sample_valuation)
  from valuation_stage [OF h l v, of "Fin (1 / 2)", THEN conjunct1] show ?thesis
    by simp
qed

text \<open>
  A negative market value passes test 2: for a \<open>total_mv\<close> entry of \<open>-1\<close> both values
  are resolved, neither is positive, and the symbol is rejected only at test 5.
\<close>

theorem negative_value_passes_valuation:
  "fst (get_float_share_and_mv
      (sample_provider (Inr (bars 104 7000000 7000000)) (Inr (WithTotalMv [- 1]))
         (Inr (ticks_of 100 102))) ''600000'')
     = (Some (- 8750000 / 13), Some (- 100000000))
   \<and> evaluate (sample_provider (Inr (bars 104 7000000 7000000)) (Inr (WithTotalMv [- 1]))
         (Inr (ticks_of 100 102))) (Fin (1 / 2)) ''600000''
     = (Rejected TurnoverOutOfRange,
        [Call_stock_zh_a_hist ''600000'', Call_stock_a_indicator_lg ''600000'',
         Call_stock_zh_a_spot_em])"
  by (simp add: eval_defs sample_simps)

section \<open>The daily price move\<close>

text \<open>
  C5.  The bounds of test 3 are inclusive.  For a symbol that reaches test 3 (at least
  20 bars, both valuation figures resolved and non-zero), the verdict is the
  price-move reason exactly when the move is not within 3 and 5: a move of exactly 3
  or exactly 5 is not rejected by test 3, and a move strictly below 3 or strictly above
  5 is rejected with the price-move reason.  The move is
  (today's close - previous close) / previous close * 100.
\<close>

theorem price_move_inclusive:
  assumes hist: "stock_zh_a_hist P s = Inr df"
    and len: "20 \<le> length df"
    and val: "get_float_share_and_mv P s = ((fs, mv), cs)"
    and tr: "truthy fs" "truthy mv"
    and p: "p = pct_change (last df) (df ! (length df - 2))"
  shows "(fst (evaluate P idx s) = Rejected PriceMoveOutOfRange \<longleftrightarrow> \<not> (Fin 3 \<le> p \<and> p \<le> Fin 5))
    \<and> (p = Fin 3 \<or> p = Fin 5 \<longrightarrow> fst (evaluate P idx s) \<noteq> Rejected PriceMoveOutOfRange)
    \<and> (\<forall>x. p = Fin x \<and> (x < 3 \<or> 5 < x)
          \<longrightarrow> fst (evaluate P idx s) = Rejected PriceMoveOutOfRange)
    \<and> (close (df ! (length df - 2)) \<noteq> 0 \<longrightarrow>
          p = Fin ((close (last df) - close (df ! (length df - 2)))
                    / close (df ! (length df - 2)) * 100))"
proof -
  have a: "fst (evaluate P idx s) = Rejected PriceMoveOutOfRange \<longleftrightarrow> \<not> (Fin 3 \<le> p \<and> p \<le> Fin 5)"
    unfolding p by (rule price_move_iff [OF hist len val tr])
  have b: "p = Fin 3 \<or> p = Fin 5 \<longrightarrow> fst (evaluate P idx s) \<noteq> Rejected PriceMoveOutOfRange"
    using a by auto
  have c: "\<forall>x. p = Fin x \<and> (x < 3 \<or> 5 < x)
      \<longrightarrow> fst (evaluate P idx s) = Rejected PriceMoveOutOfRange"
    using a by auto
  have d: "close (df ! (length df - 2)) \<noteq> 0 \<longrightarrow>
      p = Fin ((close (last df) - close (df ! (length df - 2)))
                / close (df ! (length df - 2)) * 100)"
    by (simp add: p pct_change_def)
  from a b c d show ?thesis by blast
qed

text \<open>Moves of exactly 3 and exactly 5 pass test 3; a move of 6 is rejected by it.\<close>

theorem price_move_inclusive_witness:
  "pct_change (last (bars 103 7000000 7000000)) (bars 103 7000000 7000000 ! 18) = Fin 3
   \<and> fst (evaluate (sample_provider (Inr (bars 103 7000000 7000000)) (Inr (WithTotalMv [100]))
        (Inr (ticks_of 100 102))) (Fin (1 / 2)) ''600000'') \<noteq> Rejected PriceMoveOutOfRange
   \<and> pct_change (last (bars 105 7000000 7000000)) (bars 105 7000000 7000000 ! 18) = Fin 5
   \<and> fst (evaluate (sample_provider (Inr (bars 105 7000000 7000000)) (Inr (WithTotalMv [100]))
        (Inr (ticks_of 100 102))) (Fin (1 / 2)) ''600000'') \<noteq> Rejected PriceMoveOutOfRange
   \<and> pct_change (last (bars 106 7000000 7000000)) (bars 106 7000000 7000000 ! 18) = Fin 6
   \<and> fst (evaluate (sample_provider (Inr (bars 106 7000000 7000000)) (Inr (WithTotalMv [100]))
        (Inr (ticks_of 100 102))) (Fin (1 / 2)) ''600000'') = Rejected PriceMoveOutOfRange"
proof -
  let ?P = "\<lambda>c. sample_provider (Inr (bars c 7000000 7000000)) (Inr (WithTotalMv [100]))
       (Inr (ticks_of 100 102))"
  have h: "stock_zh_a_hist (?P c) ''600000'' = Inr (bars c 7000000 7000000)" for c
    by (simp add: sample_fields)
  have l: "20 \<le> length (bars c 7000000 7000000)" for c
    by (simp add: length_bars)
  have v: "get_float_share_and_mv (?P c) ''600000'' =
      ((Some (100 * 100000000 / 104 * (7 / 10)), Some (100 * 100000000)),
       [Call_stock_a_indicator_lg ''600000'', Call_stock_zh_a_spot_em])" for c
    by (simp add: sample_valuation)
  have t: "truthy (Some (100 * 100000000 / 104 * (7 / 10)))" "truthy (Some (100 * 100000000))"
    by simp_all
  have p: "pct_change (last (bars c 7000000 7000000)) (bars c 7000000 7000000 ! 18)
      = pct_change (last (bars c 7000000 7000000))
          (bars c 7000000 7000000 ! (length (bars c 7000000 7000000) - 2))" for c
    by (simp add: length_bars)
  have q: "pct_change (last (bars c 7000000 7000000)) (bars c 7000000 7000000 ! 18)
      = Fin (c - 100)" for c
    by (simp add: last_bars prev_bars pct_change_def)
  from price_move_inclusive [OF h l v t p, of 103 "Fin (1 / 2)"]
    price_move_inclusive [OF h l v t p, of 105 "Fin (1 / 2)"]
    price_move_inclusive [OF h l v t p, of 106 "Fin (1 / 2)"]
  show ?thesis
    by (simp add: q)
qed

section \<open>Zero divisors in the volume tests\<close>

text \<open>
  C6.  The two guarded quotients are defined when their divisor is zero.  When the mean
  of the five sessions before today is exactly 0 the volume ratio is 0 (not an error,
  not \<open>nan\<close>), so a symbol that reaches test 4 is rejected there with the volume-ratio
  reason; when the mean of the last five volumes is exactly 0 the coefficient of
  variation is 0.
\<close>

theorem zero_mean_guards:
  "(avg_volume_5d df = Fin 0 \<longrightarrow> volume_ratio today (avg_volume_5d df) = Fin 0)
   \<and> (mean (map volume (iloc_slice df (- 5) None)) = Fin 0 \<longrightarrow> cv df = Fin 0)
   \<and> (stock_zh_a_hist P s = Inr df \<and> 20 \<le> length df
        \<and> get_float_share_and_mv P s = ((fs, mv), cs) \<and> truthy fs \<and> truthy mv
        \<and> Fin 3 \<le> pct_change (last df) (df ! (length df - 2))
        \<and> pct_change (last df) (df ! (length df - 2)) \<le> Fin 5
        \<and> avg_volume_5d df = Fin 0
      \<longrightarrow> evaluate P idx s = (Rejected VolumeRatioTooLow, Call_stock_zh_a_hist s # cs))"
  using stage4_zero_mean [of P s df fs mv cs idx]
  by (simp add: volume_ratio_def cv_def)

theorem zero_mean_guards_witness:
  "avg_volume_5d (bars 104 0 0) = Fin 0
   \<and> volume_ratio \<lparr>close = 104, volume = 0\<rparr> (avg_volume_5d (bars 104 0 0)) = Fin 0
   \<and> mean (map volume (iloc_slice (bars 104 0 0) (- 5) None)) = Fin 0
   \<and> cv (bars 104 0 0) = Fin 0
   \<and> evaluate (sample_provider (Inr (bars 104 0 0)) (Inr (WithTotalMv [100]))
        (Inr (ticks_of 100 102))) (Fin (1 / 2)) ''600000''
     = (Rejected VolumeRatioTooLow,
        [Call_stock_zh_a_hist ''600000'', Call_stock_a_indicator_lg ''600000'',
         Call_stock_zh_a_spot_em])"
proof -
  let ?P = "sample_provider (Inr (bars 104 0 0)) (Inr (WithTotalMv [100]))
       (Inr (ticks_of 100 102))"
  have a: "avg_volume_5d (bars 104 0 0) = Fin 0"
    by (simp add: avg_bars)
  have m: "mean (map volume (iloc_slice (bars 104 0 0) (- 5) None)) = Fin 0"
    by (simp add: iloc_slice_def clamp_pos_def bars_def mean_def sum_list_replicate)
  have pre: "stock_zh_a_hist ?P ''600000'' = Inr (bars 104 0 0) \<and> 20 \<le> length (bars 104 0 0)
      \<and> get_float_share_and_mv ?P ''600000'' =
          ((Some (100 * 100000000 / 104 * (7 / 10)), Some (100 * 100000000)),
           [Call_stock_a_indicator_lg ''600000'', Call_stock_zh_a_spot_em])
      \<and> truthy (Some (100 * 100000000 / 104 * (7 / 10))) \<and> truthy (Some (100 * 100000000))
      \<and> Fin 3 \<le> pct_change (last (bars 104 0 0)) (bars 104 0 0 ! (length (bars 104 0 0) - 2))
      \<and> pct_change (last (bars 104 0 0)) (bars 104 0 0 ! (length (bars 104 0 0) - 2)) \<le> Fin 5
      \<and> avg_volume_5d (bars 104 0 0) = Fin 0"
    by (simp add: sample_simps)
  from zero_mean_guards [of "bars 104 0 0" "\<lparr>close = 104, volume = 0\<rparr>" ?P "''600000''"
      "Some (100 * 100000000 / 104 * (7 / 10))" "Some (100 * 100000000)"
      "[Call_stock_a_indicator_lg ''600000'', Call_stock_zh_a_spot_em]" "Fin (1 / 2)"]
    a m pre
  show ?thesis
    by simp
qed

section \<open>Intraday strength\<close>

text \<open>
  C7.  For a symbol that passes tests 1 to 8 and whose one-minute query succeeds,
  test 9 rejects with the intraday reason exactly when the sequence of ticks retained
  (those at or after 14:30:00) is empty, or today's close is below the mean of the
  intraday prices, or the intraday return is below the index return plus 1; otherwise
  the symbol is selected.  In particular an empty tick sequence gives the intraday
  reason, not an error.  The mean is the sum of the retained prices over their number,
  and the return is (last price - first price) / first price * 100.
\<close>

theorem intraday_strength:
  assumes hist: "stock_zh_a_hist P s = Inr df"
    and val: "get_float_share_and_mv P s = ((fs, mv), cs)"
    and lib: "bollinger_hband P (map close df) = Inr u"
    and minute: "stock_zh_a_minute P s = Inr raw"
    and ticks: "ticks = filter (\<lambda>t. 14 * 3600 + 30 * 60 \<le> time t) raw"
    and before: "\<forall>j. 1 \<le> j \<and> j \<le> 8 \<longrightarrow> test_ok idx df fs mv u ticks j"
  shows "(fst (evaluate P idx s) = Rejected WeakIntraday \<longleftrightarrow>
            ticks = [] \<or> Fin (close (last df)) < vwap ticks
            \<or> stock_pct (last ticks) (hd ticks) < idx + Fin 1)
    \<and> (fst (evaluate P idx s) = Selected \<longleftrightarrow>
          \<not> (ticks = [] \<or> Fin (close (last df)) < vwap ticks
             \<or> stock_pct (last ticks) (hd ticks) < idx + Fin 1))
    \<and> (ticks = [] \<longrightarrow> fst (evaluate P idx s) = Rejected WeakIntraday)
    \<and> (ticks \<noteq> [] \<longrightarrow>
          vwap ticks = Fin (sum_list (map price ticks) / real (length ticks)))
    \<and> (ticks \<noteq> [] \<and> price (hd ticks) \<noteq> 0 \<longrightarrow>
          stock_pct (last ticks) (hd ticks)
          = Fin ((price (last ticks) - price (hd ticks)) / price (hd ticks) * 100))
    \<and> (\<forall>i. ticks \<noteq> [] \<and> price (hd ticks) \<noteq> 0 \<and> idx = Fin i \<longrightarrow>
          (fst (evaluate P idx s) = Rejected WeakIntraday \<longleftrightarrow>
             close (last df) < sum_list (map price ticks) / real (length ticks)
             \<or> (price (last ticks) - price (hd ticks)) / price (hd ticks) * 100 < i + 1))"
proof -
  have intra: "get_intraday_data P s = Inr ticks"
    unfolding ticks by (rule intraday_of_raw [OF minute])
  have body: "try_body P idx s =
     (Inr (if ticks = [] \<or> Fin (close (last df)) < vwap ticks
            \<or> stock_pct (last ticks) (hd ticks) < idx + Fin 1
         then Rejected WeakIntraday else Selected), stage_calls 9 s cs)"
    by (rule stage9 [OF hist val lib intra before])
  have a: "fst (evaluate P idx s) = Rejected WeakIntraday \<longleftrightarrow>
            ticks = [] \<or> Fin (close (last df)) < vwap ticks
            \<or> stock_pct (last ticks) (hd ticks) < idx + Fin 1"
    using body by (simp add: evaluate_def)
  have b: "fst (evaluate P idx s) = Selected \<longleftrightarrow>
          \<not> (ticks = [] \<or> Fin (close (last df)) < vwap ticks
             \<or> stock_pct (last ticks) (hd ticks) < idx + Fin 1)"
    using body by (simp add: evaluate_def)
  have c: "ticks \<noteq> [] \<longrightarrow>
      vwap ticks = Fin (sum_list (map price ticks) / real (length ticks))"
    by (simp add: vwap_def mean_def)
  have d: "ticks \<noteq> [] \<and> price (hd ticks) \<noteq> 0 \<longrightarrow>
      stock_pct (last ticks) (hd ticks)
      = Fin ((price (last ticks) - price (hd ticks)) / price (hd ticks) * 100)"
    by (simp add: stock_pct_def)
  have e: "\<forall>i. ticks \<noteq> [] \<and> price (hd ticks) \<noteq> 0 \<and> idx = Fin i \<longrightarrow>
          (fst (evaluate P idx s) = Rejected WeakIntraday \<longleftrightarrow>
             close (last df) < sum_list (map price ticks) / real (length ticks)
             \<or> (price (last ticks) - price (hd ticks)) / price (hd ticks) * 100 < i + 1)"
    using a c d by auto
  from a b c d e show ?thesis
    by blast
qed

text \<open>
  Four one-minute answers for a symbol that passes tests 1 to 8 (the band is that of
  the library), each starting with a tick at 09:30 that is not retained: no tick after
  14:30 (rejected), prices 110 and 113 whose mean exceeds the close of 104 (rejected),
  prices 100 and 101, a return of 1 against an index return of 0.5 (rejected), and
  prices 100 and 102 (selected).
\<close>

theorem intraday_strength_witness:
  "fst (evaluate (sample_provider (Inr (bars 104 7000000 7000000)) (Inr (WithTotalMv [100]))
        (Inr [\<lparr>time = 34200, price = 50\<rparr>])) (Fin (1 / 2)) ''600000'') = Rejected WeakIntraday
   \<and> fst (evaluate (sample_provider (Inr (bars 104 7000000 7000000)) (Inr (WithTotalMv [100]))
        (Inr (\<lparr>time = 34200, price = 50\<rparr> # ticks_of 110 113))) (Fin (1 / 2)) ''600000'')
      = Rejected WeakIntraday
   \<and> fst (evaluate (sample_provider (Inr (bars 104 7000000 7000000)) (Inr (WithTotalMv [100]))
        (Inr (\<lparr>time = 34200, price = 50\<rparr> # ticks_of 100 101))) (Fin (1 / 2)) ''600000'')
      = Rejected WeakIntraday
   \<and> fst (evaluate (sample_provider (Inr (bars 104 7000000 7000000)) (Inr (WithTotalMv [100]))
        (Inr (\<lparr>time = 34200, price = 50\<rparr> # ticks_of 100 102))) (Fin (1 / 2)) ''600000'')
      = Selected"
proof -
  let ?P = "\<lambda>raw. sample_provider (Inr (bars 104 7000000 7000000)) (Inr (WithTotalMv [100]))
        (Inr raw)"
  have h: "stock_zh_a_hist (?P raw) ''600000'' = Inr (bars 104 7000000 7000000)" for raw
    by (simp add: sample_fields)
  have v: "get_float_share_and_mv (?P raw) ''600000'' =
      ((Some (100 * 100000000 / 104 * (7 / 10)), Some (100 * 100000000)),
       [Call_stock_a_indicator_lg ''600000'', Call_stock_zh_a_spot_em])" for raw
    by (simp add: sample_valuation)
  have m: "stock_zh_a_minute (?P raw) ''600000'' = Inr raw" for raw
    by (simp add: sample_fields)
  have r: "\<exists>u. bollinger_hband (?P raw) (map close (bars 104 7000000 7000000)) = Inr u
     \<and> (\<forall>j. 1 \<le> j \<and> j \<le> 8 \<longrightarrow>
          test_ok (Fin (1 / 2)) (bars 104 7000000 7000000)
            (Some (100 * 100000000 / 104 * (7 / 10))) (Some (100 * 100000000)) u
            (filter (\<lambda>t. 14 * 3600 + 30 * 60 \<le> time t) raw) j)" for raw
    using sample_reaches9 [of "Inr (bars 104 7000000 7000000)" "Inr (WithTotalMv [100])"
        "Inr raw"]
    by blast
  have t: "filter (\<lambda>t. 14 * 3600 + 30 * 60 \<le> time t) (\<lparr>time = 34200, price = 50\<rparr> # ticks_of p q)
      = ticks_of p q" for p q
    by (simp add: ticks_of_def)
  have t0: "filter (\<lambda>t. 14 * 3600 + 30 * 60 \<le> time t) [\<lparr>time = 34200, price = 50\<rparr>] = []"
    by simp
  have 1: "fst (evaluate (?P [\<lparr>time = 34200, price = 50\<rparr>]) (Fin (1 / 2)) ''600000'')
      = Rejected WeakIntraday"
  proof -
    from r [of "[\<lparr>time = 34200, price = 50\<rparr>]"] obtain u
      where l: "bollinger_hband (?P [\<lparr>time = 34200, price = 50\<rparr>])
          (map close (bars 104 7000000 7000000)) = Inr u"
        and b: "\<forall>j. 1 \<le> j \<and> j \<le> 8 \<longrightarrow>
          test_ok (Fin (1 / 2)) (bars 104 7000000 7000000)
            (Some (100 * 100000000 / 104 * (7 / 10))) (Some (100 * 100000000)) u
            (filter (\<lambda>t. 14 * 3600 + 30 * 60 \<le> time t) [\<lparr>time = 34200, price = 50\<rparr>]) j"
      by blast
    from intraday_strength [OF h v l m refl b] show ?thesis
      by (simp add: t0)
  qed
  have 2: "fst (evaluate (?P (\<lparr>time = 34200, price = 50\<rparr> # ticks_of p q)) (Fin (1 / 2))
        ''600000'')
      = (if Fin 104 < vwap (ticks_of p q)
            \<or> stock_pct (last (ticks_of p q)) (hd (ticks_of p q)) < Fin (1 / 2) + Fin 1
         then Rejected WeakIntraday else Selected)" for p q
  proof -
    from r [of "\<lparr>time = 34200, price = 50\<rparr> # ticks_of p q"] obtain u
      where l: "bollinger_hband (?P (\<lparr>time = 34200, price = 50\<rparr> # ticks_of p q))
          (map close (bars 104 7000000 7000000)) = Inr u"
        and b: "\<forall>j. 1 \<le> j \<and> j \<le> 8 \<longrightarrow>
          test_ok (Fin (1 / 2)) (bars 104 7000000 7000000)
            (Some (100 * 100000000 / 104 * (7 / 10))) (Some (100 * 100000000)) u
            (filter (\<lambda>t. 14 * 3600 + 30 * 60 \<le> time t)
               (\<lparr>time = 34200, price = 50\<rparr> # ticks_of p q)) j"
      by blast
    have ne: "ticks_of p q \<noteq> []"
      by (simp add: ticks_of_def)
    from intraday_strength [OF h v l m refl b, THEN conjunct1]
      intraday_strength [OF h v l m refl b, THEN conjunct2, THEN conjunct1]
    show ?thesis
      unfolding t by (simp add: ne last_bars)
  qed
  from 1 2 [of 110 113] 2 [of 100 101] 2 [of 100 102] show ?thesis
    by (simp add: ticks_of_def vwap_def stock_pct_def mean_def)
qed

section \<open>The index return\<close>

text \<open>
  C8 (as the code has it).  \<open>get_index_data\<close> never fails.  On any failure of its
  fetch (the second query raising after the first did, a frame without the
  closing-price column, an empty frame, anything else raising inside it) it returns 0.
  When the fetch gives at least two closing prices it returns
  (latest close - previous close) / previous close * 100.  These are all the fetch
  outcomes but one: a frame with exactly one closing price, which has no previous close
  and is not covered by either case.  Whatever the index queries do, the run processes
  every symbol of the list.
\<close>

theorem benchmark_fallback:
  "(index_zh_a_hist P x = Inl e1 \<and> stock_zh_index_daily P (''sh'' @ x) = Inl e2
      \<longrightarrow> get_index_data P x = Fin 0)
   \<and> (index_body P x = Inl e \<longrightarrow> get_index_data P x = Fin 0)
   \<and> (index_fetch P x = Inl e \<longrightarrow> get_index_data P x = Fin 0)
   \<and> (index_fetch P x = Inr None \<longrightarrow> get_index_data P x = Fin 0)
   \<and> (index_fetch P x = Inr (Some []) \<longrightarrow> get_index_data P x = Fin 0)
   \<and> (index_fetch P x = Inr (Some closes) \<and> 2 \<le> length closes
      \<longrightarrow> get_index_data P x
           = (Fin (last closes) - Fin (closes ! (length closes - 2)))
               / Fin (closes ! (length closes - 2)) * Fin 100)
   \<and> ((index_zh_a_hist P x = Inr (Some closes)
        \<or> (index_zh_a_hist P x = Inl e1
           \<and> stock_zh_index_daily P (''sh'' @ x) = Inr (Some closes)))
       \<and> 2 \<le> length closes
      \<longrightarrow> get_index_data P x
           = (Fin (last closes) - Fin (closes ! (length closes - 2)))
               / Fin (closes ! (length closes - 2)) * Fin 100)
   \<and> ((\<exists>e. index_fetch P x = Inl e) \<or> index_fetch P x = Inr None
       \<or> index_fetch P x = Inr (Some [])
       \<or> (\<exists>c. index_fetch P x = Inr (Some [c]))
       \<or> (\<exists>cl. index_fetch P x = Inr (Some cl) \<and> 2 \<le> length cl))
   \<and> processed_count (filter_stocks_run P symbol_list) = length symbol_list"
proof -
  have a: "index_zh_a_hist P x = Inl e1 \<and> stock_zh_index_daily P (''sh'' @ x) = Inl e2
      \<longrightarrow> get_index_data P x = Fin 0"
    by (simp add: get_index_data_def index_body_def)
  have b: "index_body P x = Inl e \<longrightarrow> get_index_data P x = Fin 0"
    by (simp add: get_index_data_def)
  have c: "index_fetch P x = Inl e \<longrightarrow> get_index_data P x = Fin 0"
    "index_fetch P x = Inr None \<longrightarrow> get_index_data P x = Fin 0"
    "index_fetch P x = Inr (Some []) \<longrightarrow> get_index_data P x = Fin 0"
    by (simp_all add: index_of_fetch)
  have d: "index_fetch P x = Inr (Some closes) \<and> 2 \<le> length closes
      \<longrightarrow> get_index_data P x
           = (Fin (last closes) - Fin (closes ! (length closes - 2)))
               / Fin (closes ! (length closes - 2)) * Fin 100"
    using index_two_closes [of P x closes] by blast
  have f: "(\<exists>e. index_fetch P x = Inl e) \<or> index_fetch P x = Inr None
       \<or> index_fetch P x = Inr (Some [])
       \<or> (\<exists>c. index_fetch P x = Inr (Some [c]))
       \<or> (\<exists>cl. index_fetch P x = Inr (Some cl) \<and> 2 \<le> length cl)"
  proof (cases "index_fetch P x")
    case (Inl e')
    then show ?thesis by blast
  next
    case (Inr frame)
    show ?thesis
    proof (cases frame)
      case None
      with Inr show ?thesis by blast
    next
      case (Some cl)
      then consider "cl = []" | c where "cl = [c]" | "2 \<le> length cl"
        by (cases cl; cases "tl cl") auto
      then show ?thesis
        using Inr Some by cases auto
    qed
  qed
  from a b c d f index_success [of P x closes e1] run_processed [of P symbol_list]
  show ?thesis by blast
qed

theorem benchmark_fallback_witness:
  "get_index_data provider_down ''000300'' = Fin 0
   \<and> get_index_data (sample_provider (Inl ProviderError) (Inl ProviderError) (Inl ProviderError))
        ''000300'' = (Fin 4020 - Fin 4000) / Fin 4000 * Fin 100
   \<and> processed_count (filter_stocks_run provider_down [''600000'', ''000001'']) = 2"
proof -
  let ?S = "sample_provider (Inl ProviderError) (Inl ProviderError) (Inl ProviderError)"
  have d: "index_zh_a_hist provider_down ''000300'' = Inl ProviderError
      \<and> stock_zh_index_daily provider_down (''sh'' @ ''000300'') = Inl ProviderError"
    by (simp add: provider_down_def)
  have s: "index_fetch ?S ''000300'' = Inr (Some [4000, 4020])
       \<and> 2 \<le> length [4000, 4020 :: real]"
    by (simp add: index_fetch_def sample_fields)
  from benchmark_fallback [of provider_down "''000300''" ProviderError ProviderError
      ProviderError "[]" "[''600000'', ''000001'']"] d
    benchmark_fallback [of ?S "''000300''" ProviderError ProviderError
      ProviderError "[4000, 4020]" "[]"] s
  show ?thesis
    by (simp add: sample_fields provider_down_def)
qed

text \<open>
  A fetch outcome that is neither case: the first index query succeeds with a single
  closing price.  The value returned is \<open>nan\<close>, which is not the fallback 0, and there
  is no previous close for the formula.  It also decides the verdict of test 9: the
  fully passing sample symbol with intraday prices 100 and 100.5 is rejected under the
  fallback 0 and selected under this value.
\<close>

theorem single_close_is_nan:
  "index_fetch (single_close_provider (Inl ProviderError)) ''000300'' = Inr (Some [4000])
   \<and> get_index_data (single_close_provider (Inl ProviderError)) ''000300'' = NaN
   \<and> NaN \<noteq> Fin 0
   \<and> fst (evaluate (sample_provider (Inr (bars 104 7000000 7000000)) (Inr (WithTotalMv [100]))
        (Inr (ticks_of 100 (201 / 2)))) (Fin 0) ''600000'') = Rejected WeakIntraday
   \<and> filter_stocks (single_close_provider (Inr (ticks_of 100 (201 / 2)))) [''600000''] = [''600000'']"
proof -
  have f: "index_fetch (single_close_provider m) ''000300'' = Inr (Some [4000])" for m
    by (simp add: index_fetch_def single_close_provider_def sample_provider_def)
  have n: "get_index_data (single_close_provider m) ''000300'' = NaN" for m
    by (simp add: index_of_fetch f)
  have "evaluate (single_close_provider (Inr (ticks_of 100 (201 / 2)))) NaN ''600000''
      = ((let ticks = filter (\<lambda>t. 14 * 3600 + 30 * 60 \<le> time t) (ticks_of 100 (201 / 2))
          in if ticks = [] \<or> Fin 104 < vwap ticks
                \<or> stock_pct (last ticks) (hd ticks) < NaN + Fin 1
             then Rejected WeakIntraday else Selected),
         [Call_stock_zh_a_hist ''600000'', Call_stock_a_indicator_lg ''600000'',
          Call_stock_zh_a_spot_em, Call_BollingerBands, Call_stock_zh_a_minute ''600000''])"
    by (rule sample_stage9_fields)
       (simp_all add: single_close_provider_def sample_provider_def)
  then have sel: "fst (evaluate (single_close_provider (Inr (ticks_of 100 (201 / 2)))) NaN
      ''600000'') = Selected"
    by (simp add: ticks_of_def vwap_def stock_pct_def mean_def)
  have w: "fst (evaluate (sample_provider (Inr (bars 104 7000000 7000000))
        (Inr (WithTotalMv [100])) (Inr (ticks_of 100 (201 / 2)))) (Fin 0) ''600000'')
      = Rejected WeakIntraday"
    by (simp add: sample_stage9) (simp add: ticks_of_def vwap_def stock_pct_def mean_def)
  have "filter_stocks (single_close_provider (Inr (ticks_of 100 (201 / 2)))) [''600000'']
      = [''600000'']"
    by (simp add: filter_stocks_def run_selected n sel)
  with f n w show ?thesis
    by simp
qed

section \<open>Failures of one symbol\<close>

text \<open>
  C9 (as the code has it).  When a stage of the \<open>try\<close> body of a symbol raises (the
  daily query; the band computation, for a symbol that passes tests 1 to 7; the
  one-minute query, for a symbol that passes tests 1 to 8), the exception is caught by
  the handler of that symbol: the symbol counts under the catch-all key, it is not
  selected, and the run goes on over all the remaining symbols, whose results are what
  they would be without it.  A failure of a valuation query is not such a failure: it
  never leaves \<open>get_float_share_and_mv\<close>, which returns \<open>(None, None)\<close>, and a symbol
  with at least 20 daily bars then counts under the valuation key.  The catch-all key
  is reached by no other way than a raising daily query, band computation or one-minute
  query.
\<close>

theorem failure_isolated:
  "((stock_zh_a_hist P s = Inl e
      \<or> (stock_zh_a_hist P s = Inr df \<and> get_float_share_and_mv P s = ((fs, mv), cs)
          \<and> (\<forall>j. 1 \<le> j \<and> j \<le> 7 \<longrightarrow>
                test_ok (get_index_data P ''000300'') df fs mv u ticks j)
          \<and> bollinger_hband P (map close df) = Inl e)
      \<or> (stock_zh_a_hist P s = Inr df \<and> get_float_share_and_mv P s = ((fs, mv), cs)
          \<and> (\<forall>j. 1 \<le> j \<and> j \<le> 8 \<longrightarrow>
                test_ok (get_index_data P ''000300'') df fs mv u ticks j)
          \<and> bollinger_hband P (map close df) = Inr u
          \<and> stock_zh_a_minute P s = Inl e))
    \<longrightarrow> fst (try_body P (get_index_data P ''000300'') s) = Inl e
      \<and> fst (evaluate P (get_index_data P ''000300'') s) = Rejected EvaluationError
      \<and> selected (filter_stocks_run P (pre @ s # post))
          = selected (filter_stocks_run P pre) @ selected (filter_stocks_run P post)
      \<and> s \<notin> set (filter_stocks P (pre @ s # post))
      \<and> rejected (filter_stocks_run P (pre @ s # post)) EvaluationError
          = rejected (filter_stocks_run P pre) EvaluationError + 1
            + rejected (filter_stocks_run P post) EvaluationError
      \<and> (\<forall>r. r \<noteq> EvaluationError \<longrightarrow>
            rejected (filter_stocks_run P (pre @ s # post)) r
            = rejected (filter_stocks_run P pre) r + rejected (filter_stocks_run P post) r)
      \<and> processed_count (filter_stocks_run P (pre @ s # post))
          = length pre + 1 + length post)
   \<and> (stock_zh_a_hist P s = Inr df \<and> 20 \<le> length df
        \<and> (stock_a_indicator_lg P s = Inl e \<or> stock_zh_a_spot_em P = Inl e)
      \<longrightarrow> fst (evaluate P idx s) = Rejected NoValuationData)
   \<and> (fst (evaluate P idx s) = Rejected EvaluationError
      \<longrightarrow> (\<exists>e. stock_zh_a_hist P s = Inl e)
        \<or> (\<exists>e df. stock_zh_a_hist P s = Inr df \<and> bollinger_hband P (map close df) = Inl e)
        \<or> (\<exists>e. stock_zh_a_minute P s = Inl e))"
proof (intro conjI impI)
  let ?i = "get_index_data P ''000300''"
  assume raised: "stock_zh_a_hist P s = Inl e
      \<or> (stock_zh_a_hist P s = Inr df \<and> get_float_share_and_mv P s = ((fs, mv), cs)
          \<and> (\<forall>j. 1 \<le> j \<and> j \<le> 7 \<longrightarrow> test_ok ?i df fs mv u ticks j)
          \<and> bollinger_hband P (map close df) = Inl e)
      \<or> (stock_zh_a_hist P s = Inr df \<and> get_float_share_and_mv P s = ((fs, mv), cs)
          \<and> (\<forall>j. 1 \<le> j \<and> j \<le> 8 \<longrightarrow> test_ok ?i df fs mv u ticks j)
          \<and> bollinger_hband P (map close df) = Inr u
          \<and> stock_zh_a_minute P s = Inl e)"
  then show body: "fst (try_body P ?i s) = Inl e"
    using daily_failure_raises [of P s e ?i]
      band_failure_raises [of P s df fs mv cs ?i u ticks e]
      minute_failure_raises [of P s df fs mv cs ?i u ticks e]
    by auto
  then show ev: "fst (evaluate P ?i s) = Rejected EvaluationError"
    by (cases "try_body P ?i s") (auto simp add: evaluate_def)
  from ev show "selected (filter_stocks_run P (pre @ s # post))
      = selected (filter_stocks_run P pre) @ selected (filter_stocks_run P post)"
    by (simp add: run_selected)
  from ev show "s \<notin> set (filter_stocks P (pre @ s # post))"
    by (auto simp add: filter_stocks_def run_selected)
  from ev show "rejected (filter_stocks_run P (pre @ s # post)) EvaluationError
      = rejected (filter_stocks_run P pre) EvaluationError + 1
        + rejected (filter_stocks_run P post) EvaluationError"
    by (simp add: run_rejected)
  from ev show "\<forall>r. r \<noteq> EvaluationError \<longrightarrow>
      rejected (filter_stocks_run P (pre @ s # post)) r
      = rejected (filter_stocks_run P pre) r + rejected (filter_stocks_run P post) r"
    by (simp add: run_rejected)
  show "processed_count (filter_stocks_run P (pre @ s # post)) = length pre + 1 + length post"
    by (simp add: run_processed)
next
  assume a: "stock_zh_a_hist P s = Inr df \<and> 20 \<le> length df
      \<and> (stock_a_indicator_lg P s = Inl e \<or> stock_zh_a_spot_em P = Inl e)"
  obtain cs' where v: "get_float_share_and_mv P s = ((None, None), cs')"
    using valuation_failure_absorbed [of P s e] a
    by (metis prod.collapse)
  from a not_valuation_after_stage2 [OF _ _ v, of df idx]
  show "fst (evaluate P idx s) = Rejected NoValuationData"
    by simp
next
  assume "fst (evaluate P idx s) = Rejected EvaluationError"
  then show "(\<exists>e. stock_zh_a_hist P s = Inl e)
        \<or> (\<exists>e df. stock_zh_a_hist P s = Inr df \<and> bollinger_hband P (map close df) = Inl e)
        \<or> (\<exists>e. stock_zh_a_minute P s = Inl e)"
    by (rule evaluation_error_sources)
qed

text \<open>
  The three failures at sample inputs, and the failure of a valuation query: a daily
  query that raises; a band computation that raises for the sample symbol, which
  passes tests 1 to 7; a one-minute query that raises for the sample symbol, which
  passes tests 1 to 8; each counts under the catch-all key.  An indicator query that
  raises counts under the valuation key.
\<close>

theorem failure_isolated_witness:
  "fst (evaluate provider_down (get_index_data provider_down ''000300'') ''600000'')
     = Rejected EvaluationError
   \<and> selected (filter_stocks_run provider_down [''000001'', ''600000'', ''000002'']) = []
   \<and> rejected (filter_stocks_run provider_down [''000001'', ''600000'', ''000002''])
        EvaluationError = 3
   \<and> processed_count (filter_stocks_run provider_down [''000001'', ''600000'', ''000002'']) = 3
   \<and> fst (evaluate (band_down_provider (Inr (ticks_of 100 102))) (Fin (1 / 2)) ''600000'')
       = Rejected EvaluationError
   \<and> fst (evaluate (sample_provider (Inr (bars 104 7000000 7000000)) (Inr (WithTotalMv [100]))
        (Inl ProviderError)) (Fin (1 / 2)) ''600000'') = Rejected EvaluationError
   \<and> fst (evaluate (sample_provider (Inr (bars 104 7000000 7000000)) (Inl ProviderError)
        (Inr (ticks_of 100 102))) (Fin (1 / 2)) ''600000'') = Rejected NoValuationData"
proof -
  let ?fs = "Some (100 * 100000000 / 104 * (7 / 10)) :: real option"
  let ?mv = "Some (100 * 100000000) :: real option"
  let ?cs = "[Call_stock_a_indicator_lg ''600000'', Call_stock_zh_a_spot_em]"
  let ?df = "bars 104 7000000 7000000"
  \<comment> \<open>the daily query raises\<close>
  have d: "stock_zh_a_hist provider_down ''600000'' = Inl ProviderError"
    by (simp add: provider_down_def)
  note 1 = failure_isolated [of provider_down "''600000''" ProviderError ?df ?fs ?mv ?cs NaN "[]"
      "[''000001'']" "[''000002'']" "Fin 0", THEN conjunct1, rule_format, OF disjI1, OF d]
  \<comment> \<open>the band computation raises\<close>
  let ?B = "band_down_provider (Inr (ticks_of 100 102))"
  have bi: "get_index_data ?B ''000300'' = Fin (1 / 2)"
    by (simp add: get_index_data_def index_body_def band_down_provider_def sample_provider_def
        iloc_def)
  have bh: "stock_zh_a_hist ?B ''600000'' = Inr ?df"
    by (simp add: band_down_provider_def sample_provider_def)
  have bv: "get_float_share_and_mv ?B ''600000'' = ((?fs, ?mv), ?cs)"
    by (simp add: get_float_share_and_mv_def band_down_provider_def sample_provider_def iloc_def)
  have bb: "\<forall>j. 1 \<le> j \<and> j \<le> 7 \<longrightarrow> test_ok (get_index_data ?B ''000300'') ?df ?fs ?mv NaN [] j"
    using sample_tests_ok7 by blast
  have bl: "bollinger_hband ?B (map close ?df) = Inl ProviderError"
    by (simp add: band_down_provider_def sample_provider_def)
  have b: "stock_zh_a_hist ?B ''600000'' = Inl ProviderError
      \<or> (stock_zh_a_hist ?B ''600000'' = Inr ?df
          \<and> get_float_share_and_mv ?B ''600000'' = ((?fs, ?mv), ?cs)
          \<and> (\<forall>j. 1 \<le> j \<and> j \<le> 7 \<longrightarrow>
                test_ok (get_index_data ?B ''000300'') ?df ?fs ?mv NaN [] j)
          \<and> bollinger_hband ?B (map close ?df) = Inl ProviderError)
      \<or> (stock_zh_a_hist ?B ''600000'' = Inr ?df
          \<and> get_float_share_and_mv ?B ''600000'' = ((?fs, ?mv), ?cs)
          \<and> (\<forall>j. 1 \<le> j \<and> j \<le> 8 \<longrightarrow>
                test_ok (get_index_data ?B ''000300'') ?df ?fs ?mv NaN [] j)
          \<and> bollinger_hband ?B (map close ?df) = Inr NaN
          \<and> stock_zh_a_minute ?B ''600000'' = Inl ProviderError)"
    using bh bv bb bl by blast
  note 2 = failure_isolated [of ?B "''600000''" ProviderError ?df ?fs ?mv ?cs NaN "[]"
      "[]" "[]" "Fin 0", THEN conjunct1, rule_format, OF b]
  \<comment> \<open>the one-minute query raises\<close>
  let ?M = "sample_provider (Inr ?df) (Inr (WithTotalMv [100])) (Inl ProviderError)"
  have mi: "get_index_data ?M ''000300'' = Fin (1 / 2)"
    by (rule sample_index)
  have mh: "stock_zh_a_hist ?M ''600000'' = Inr ?df"
    by (simp add: sample_fields)
  have mv: "get_float_share_and_mv ?M ''600000'' = ((?fs, ?mv), ?cs)"
    by (simp add: sample_valuation)
  from sample_reaches9 [of "Inr ?df" "Inr (WithTotalMv [100])" "Inl ProviderError"]
  obtain u where ml: "bollinger_hband ?M (map close ?df) = Inr u"
    and mb: "\<forall>j. 1 \<le> j \<and> j \<le> 8 \<longrightarrow> test_ok (get_index_data ?M ''000300'') ?df ?fs ?mv u [] j"
    by blast
  have mm: "stock_zh_a_minute ?M ''600000'' = Inl ProviderError"
    by (simp add: sample_fields)
  have m: "stock_zh_a_hist ?M ''600000'' = Inl ProviderError
      \<or> (stock_zh_a_hist ?M ''600000'' = Inr ?df
          \<and> get_float_share_and_mv ?M ''600000'' = ((?fs, ?mv), ?cs)
          \<and> (\<forall>j. 1 \<le> j \<and> j \<le> 7 \<longrightarrow>
                test_ok (get_index_data ?M ''000300'') ?df ?fs ?mv u [] j)
          \<and> bollinger_hband ?M (map close ?df) = Inl ProviderError)
      \<or> (stock_zh_a_hist ?M ''600000'' = Inr ?df
          \<and> get_float_share_and_mv ?M ''600000'' = ((?fs, ?mv), ?cs)
          \<and> (\<forall>j. 1 \<le> j \<and> j \<le> 8 \<longrightarrow>
                test_ok (get_index_data ?M ''000300'') ?df ?fs ?mv u [] j)
          \<and> bollinger_hband ?M (map close ?df) = Inr u
          \<and> stock_zh_a_minute ?M ''600000'' = Inl ProviderError)"
    using mh mv mb ml mm by blast
  note 3 = failure_isolated [of ?M "''600000''" ProviderError ?df ?fs ?mv ?cs u "[]"
      "[]" "[]" "Fin 0", THEN conjunct1, rule_format, OF m]
  \<comment> \<open>the indicator query raises\<close>
  let ?V = "sample_provider (Inr ?df) (Inl ProviderError) (Inr (ticks_of 100 102))"
  have v: "stock_zh_a_hist ?V ''600000'' = Inr ?df \<and> 20 \<le> length ?df
      \<and> (stock_a_indicator_lg ?V ''600000'' = Inl ProviderError
         \<or> stock_zh_a_spot_em ?V = Inl ProviderError)"
    by (simp add: sample_fields length_bars)
  note 4 = failure_isolated [of ?V "''600000''" ProviderError ?df ?fs ?mv ?cs NaN "[]"
      "[]" "[]" "Fin (1 / 2)", THEN conjunct2, THEN conjunct1, rule_format, OF v]
  from 1 2 3 4 show ?thesis
    by (simp add: bi mi run_selected run_rejected down_eval)
qed

text \<open>
  A provider error of test 2 is not counted under the catch-all key: when the indicator
  query raises, the symbol is rejected with the valuation reason.
\<close>

theorem valuation_failure_not_evaluation_error:
  "stock_a_indicator_lg (sample_provider (Inr (bars 104 7000000 7000000)) (Inl ProviderError)
        (Inr (ticks_of 100 102))) ''600000'' = Inl ProviderError
   \<and> evaluate (sample_provider (Inr (bars 104 7000000 7000000)) (Inl ProviderError)
        (Inr (ticks_of 100 102))) (Fin (1 / 2)) ''600000''
     = (Rejected NoValuationData,
        [Call_stock_zh_a_hist ''600000'', Call_stock_a_indicator_lg ''600000''])
   \<and> rejected (filter_stocks_run (sample_provider (Inr (bars 104 7000000 7000000))
        (Inl ProviderError) (Inr (ticks_of 100 102))) [''600000'']) EvaluationError = 0
   \<and> rejected (filter_stocks_run (sample_provider (Inr (bars 104 7000000 7000000))
        (Inl ProviderError) (Inr (ticks_of 100 102))) [''600000'']) NoValuationData = 1"
proof -
  let ?P = "sample_provider (Inr (bars 104 7000000 7000000)) (Inl ProviderError)
        (Inr (ticks_of 100 102))"
  have ev: "evaluate ?P (Fin (1 / 2)) ''600000''
     = (Rejected NoValuationData,
        [Call_stock_zh_a_hist ''600000'', Call_stock_a_indicator_lg ''600000''])"
    by (simp add: eval_defs sample_fields length_bars get_float_share_and_mv_def)
  then show ?thesis
    by (simp add: run_rejected sample_index sample_fields)
qed

section \<open>A first tick at price zero\<close>

text \<open>
  C10 (as the code has it).  The intraday return of test 9 is computed without the
  zero-divisor guard that protects the volume ratio and the coefficient of variation.
  For a symbol that reaches test 9 and whose first retained tick has price exactly 0,
  the division is one of numpy scalars and raises nothing: no exception leaves the
  \<open>try\<close> body, the handler is not entered, and the symbol is not counted under the
  catch-all key on that account.  The return computed is not a finite number, and in
  particular not the value 0 the guards give.
\<close>

theorem zero_first_tick:
  assumes hist: "stock_zh_a_hist P s = Inr df"
    and val: "get_float_share_and_mv P s = ((fs, mv), cs)"
    and lib: "bollinger_hband P (map close df) = Inr u"
    and minute: "stock_zh_a_minute P s = Inr raw"
    and ticks: "ticks = filter (\<lambda>t. 14 * 3600 + 30 * 60 \<le> time t) raw"
    and before: "\<forall>j. 1 \<le> j \<and> j \<le> 8 \<longrightarrow> test_ok idx df fs mv u ticks j"
    and ne: "ticks \<noteq> []"
    and zero: "price (hd ticks) = 0"
  shows "(\<exists>v. fst (try_body P idx s) = Inr v)
    \<and> fst (evaluate P idx s) \<noteq> Rejected EvaluationError
    \<and> (\<forall>r. stock_pct (last ticks) (hd ticks) \<noteq> Fin r)"
proof -
  have intra: "get_intraday_data P s = Inr ticks"
    unfolding ticks by (rule intraday_of_raw [OF minute])
  from stage9 [OF hist val lib intra before] show ?thesis
    by (simp add: evaluate_def stock_pct_zero_first [OF zero])
qed

theorem zero_first_tick_witness:
  "price (hd (ticks_of 0 0)) = 0
   \<and> fst (evaluate (sample_provider (Inr (bars 104 7000000 7000000)) (Inr (WithTotalMv [100]))
        (Inr (ticks_of 0 0))) (Fin (1 / 2)) ''600000'') \<noteq> Rejected EvaluationError
   \<and> stock_pct (last (ticks_of 0 0)) (hd (ticks_of 0 0)) \<noteq> Fin 0"
proof -
  let ?P = "sample_provider (Inr (bars 104 7000000 7000000)) (Inr (WithTotalMv [100]))
        (Inr (ticks_of 0 0))"
  have h: "stock_zh_a_hist ?P ''600000'' = Inr (bars 104 7000000 7000000)"
    by (simp add: sample_fields)
  have v: "get_float_share_and_mv ?P ''600000'' =
      ((Some (100 * 100000000 / 104 * (7 / 10)), Some (100 * 100000000)),
       [Call_stock_a_indicator_lg ''600000'', Call_stock_zh_a_spot_em])"
    by (simp add: sample_valuation)
  have m: "stock_zh_a_minute ?P ''600000'' = Inr (ticks_of 0 0)"
    by (simp add: sample_fields)
  have t: "ticks_of 0 0 = filter (\<lambda>t. 14 * 3600 + 30 * 60 \<le> time t) (ticks_of 0 0)"
    by (simp add: ticks_of_def)
  from sample_reaches9 [of "Inr (bars 104 7000000 7000000)" "Inr (WithTotalMv [100])"
      "Inr (ticks_of 0 0)"]
  obtain u where l: "bollinger_hband ?P (map close (bars 104 7000000 7000000)) = Inr u"
    and b: "\<forall>j. 1 \<le> j \<and> j \<le> 8 \<longrightarrow>
      test_ok (Fin (1 / 2)) (bars 104 7000000 7000000)
        (Some (100 * 100000000 / 104 * (7 / 10))) (Some (100 * 100000000)) u (ticks_of 0 0) j"
    by blast
  have n: "ticks_of 0 0 \<noteq> []" and z: "price (hd (ticks_of 0 0)) = 0"
    by (simp_all add: ticks_of_def)
  from zero_first_tick [OF h v l m t b n z] z show ?thesis
    by simp
qed

text \<open>
  Daily bars for which the band of the library leaves headroom, a first retained tick at
  price 0 followed by a tick at 102: nothing is raised, the symbol is not counted under
  the catch-all key; with a return of \<open>inf\<close> it is selected.
\<close>

theorem zero_first_tick_selected:
  "price (hd (ticks_of 0 102)) = 0
   \<and> evaluate (sample_provider (Inr (bars 104 7000000 7000000)) (Inr (WithTotalMv [100]))
        (Inr (ticks_of 0 102))) (Fin (1 / 2)) ''600000''
     = (Selected,
        [Call_stock_zh_a_hist ''600000'', Call_stock_a_indicator_lg ''600000'',
         Call_stock_zh_a_spot_em, Call_BollingerBands, Call_stock_zh_a_minute ''600000''])"
  by (simp add: sample_stage9) (simp add: ticks_of_def vwap_def stock_pct_def mean_def)

end
